theory Spec2Isabelle
  imports Main "HOL-Library.Word"
begin

section \<open>Go library functions used by the admission webhooks\<close>

text \<open>
  Go strings are byte sequences; they are modelled by \<open>string\<close> (lists of 8-bit
  characters). The webhooks call \<open>strings.Cut\<close> and build their messages with
  \<open>fmt.Errorf\<close>, \<open>fmt.Sprintf\<close> and \<open>errors.New\<close>; the tests inspect messages with
  a substring matcher. These library functions are written out here.
\<close>

subsection \<open>strings.Index, strings.Cut, strings.Contains\<close>

text \<open>\<open>strings.Index(s, substr)\<close>: the index of the first occurrence, or -1.\<close>

fun strings_Index :: "string \<Rightarrow> string \<Rightarrow> int" where
  "strings_Index [] substr = (if substr = [] then 0 else - 1)"
| "strings_Index (c # cs) substr =
     (if take (length substr) (c # cs) = substr then 0
      else (let i = strings_Index cs substr in if i < 0 then - 1 else i + 1))"

text \<open>
  \<open>strings.Cut(s, sep)\<close>: \<open>if i := Index(s, sep); i >= 0 { return s[:i], s[i+len(sep):], true }\<close>,
  otherwise \<open>return s, "", false\<close>.
\<close>

definition strings_Cut :: "string \<Rightarrow> string \<Rightarrow> string \<times> string \<times> bool" where
  "strings_Cut s sep =
     (let i = strings_Index s sep in
      if i \<ge> 0 then (take (nat i) s, drop (nat i + length sep) s, True)
      else (s, [], False))"

definition strings_Contains :: "string \<Rightarrow> string \<Rightarrow> bool" where
  "strings_Contains s substr = (strings_Index s substr \<ge> 0)"

subsection \<open>The verbs of package fmt\<close>

text \<open>\<open>%d\<close> on a signed integer: an optional minus sign and the decimal digits.\<close>

definition digit :: "nat \<Rightarrow> char" where
  "digit n = ''0123456789'' ! (n mod 10)"

function formatDecimal :: "nat \<Rightarrow> string" where
  "formatDecimal n = (if n < 10 then [digit n] else formatDecimal (n div 10) @ [digit (n mod 10)])"
  by pat_completeness auto
termination
  by (relation "measure (\<lambda>n. n)") auto

declare formatDecimal.simps [simp del]

definition fmt_d :: "int \<Rightarrow> string" where
  "fmt_d i = (if i < 0 then CHR ''-'' # formatDecimal (nat (- i)) else formatDecimal (nat i))"

text \<open>
  \<open>%q\<close> on a string is \<open>strconv.Quote\<close>: the string between double quotes, each rune
  escaped by \<open>appendEscapedRune\<close>. For a byte below \<open>0x80\<close> the rune is the byte itself:
  the quote and the backslash are backslashed, printable ASCII is copied, the control
  characters with a one-letter escape use it, every other byte is written \<open>\xNN\<close>.
\<close>

definition lowerhex :: "nat \<Rightarrow> char" where
  "lowerhex n = ''0123456789abcdef'' ! (n mod 16)"

definition appendEscapedRune :: "char \<Rightarrow> string" where
  "appendEscapedRune c =
     (let r = (of_char c :: nat) in
      if c = CHR 0x22 \<or> c = CHR 0x5C then [CHR 0x5C, c]
      else if 0x20 \<le> r \<and> r < 0x7F then [c]
      else if c = CHR 0x07 then [CHR 0x5C, CHR ''a'']
      else if c = CHR 0x08 then [CHR 0x5C, CHR ''b'']
      else if c = CHR 0x0C then [CHR 0x5C, CHR ''f'']
      else if c = CHR 0x0A then [CHR 0x5C, CHR ''n'']
      else if c = CHR 0x0D then [CHR 0x5C, CHR ''r'']
      else if c = CHR 0x09 then [CHR 0x5C, CHR ''t'']
      else if c = CHR 0x0B then [CHR 0x5C, CHR ''v'']
      else [CHR 0x5C, CHR ''x'', lowerhex (r div 16), lowerhex r])"

text \<open>
  At a byte from \<open>0x80\<close> on, \<open>strconv.Quote\<close> decodes a UTF-8 sequence and consults the
  Unicode tables of the Go runtime. That part is a parameter of the model: a
  \<open>rune_quoter\<close> receives the rest of the string, which starts with such a byte, and
  returns the text to emit and the number of bytes consumed (at least one).
\<close>

type_synonym rune_quoter = "string \<Rightarrow> string \<times> nat"

function appendQuoted :: "rune_quoter \<Rightarrow> string \<Rightarrow> string" where
  "appendQuoted hi [] = []"
| "appendQuoted hi (c # cs) =
     (if (of_char c :: nat) < 0x80 then appendEscapedRune c @ appendQuoted hi cs
      else fst (hi (c # cs)) @ appendQuoted hi (drop (snd (hi (c # cs)) - 1) cs))"
  by pat_completeness auto
termination
  by (relation "measure (\<lambda>(hi, s). length s)") auto

definition strconv_Quote :: "rune_quoter \<Rightarrow> string \<Rightarrow> string" where
  "strconv_Quote hi s = CHR 0x22 # appendQuoted hi s @ [CHR 0x22]"

text \<open>
  What \<open>strconv.Quote\<close> does with a byte that starts no valid UTF-8 sequence: it writes
  the single byte as \<open>\xNN\<close>. This instance of the parameter serves where a concrete
  string is evaluated.
\<close>

definition quoteInvalidByte :: rune_quoter where
  "quoteInvalidByte s =
     (case s of [] \<Rightarrow> ([], 1)
      | c # cs \<Rightarrow> ([CHR 0x5C, CHR ''x'', lowerhex ((of_char c :: nat) div 16), lowerhex (of_char c)], 1))"

section \<open>The API types\<close>

text \<open>
  \<open>metav1.ObjectMeta\<close>: the webhooks read the name and the annotations. The annotation
  map of Go may be \<open>nil\<close>, which is \<open>None\<close> here.
\<close>

record ObjectMeta =
  Name :: string
  Namespace :: string
  Annotations :: "(string \<rightharpoonup> string) option"

text \<open>The gateway family: \<open>AiModel\<close> carries a name and a provider.\<close>

record AiModel =
  AiModel_Name :: string
  AiModel_Provider :: string

record AiGatewaySpec =
  AiGatewaySpec_AiGatewayClassName :: string
  AiGatewaySpec_Port :: "32 word"
  AiGatewaySpec_AiModels :: "AiModel list"

record AiGateway =
  AiGateway_ObjectMeta :: ObjectMeta
  AiGateway_Spec :: AiGatewaySpec

text \<open>The router family: \<open>AiModel\<close> carries a single name of the form provider/model-name.\<close>

record RouterAiModel =
  RouterAiModel_Name :: string

record ModelRouterSpec =
  ModelRouterSpec_Type :: string
  ModelRouterSpec_Port :: "32 word"
  ModelRouterSpec_AiModels :: "RouterAiModel list"

record ModelRouter =
  ModelRouter_ObjectMeta :: ObjectMeta
  ModelRouter_Spec :: ModelRouterSpec

record ModelRouterClassSpec =
  ModelRouterClassSpec_Controller :: string

record ModelRouterClass =
  ModelRouterClass_ObjectMeta :: ObjectMeta
  ModelRouterClass_Spec :: ModelRouterClassSpec

text \<open>
  Modelled from the spec: the declaration of the type \<open>AiGatewayClass\<close> is not among the
  sources. Its webhook and its tests use the object metadata and \<open>Spec.Controller\<close>, as
  the spec's Class entity has them.
\<close>

record AiGatewayClassSpec =
  AiGatewayClassSpec_Controller :: string

record AiGatewayClass =
  AiGatewayClass_ObjectMeta :: ObjectMeta
  AiGatewayClass_Spec :: AiGatewayClassSpec

text \<open>
  \<open>runtime.Object\<close>: the type-erased payload of an admission call. \<open>OtherObject\<close> is a
  value of any other dynamic type, given by the name \<open>%T\<close> prints for it; \<open>NilObject\<close>
  is the nil interface. The type assertion \<open>obj.(*T)\<close> succeeds on the constructor of
  \<open>T\<close> only.
\<close>

datatype runtime_Object =
    AiGatewayObject AiGateway
  | AiGatewayClassObject AiGatewayClass
  | ModelRouterObject ModelRouter
  | ModelRouterClassObject ModelRouterClass
  | OtherObject string
  | NilObject

fun typeName :: "runtime_Object \<Rightarrow> string" where
  "typeName (AiGatewayObject _) = ''*v1alpha1.AiGateway''"
| "typeName (AiGatewayClassObject _) = ''*v1alpha1.AiGatewayClass''"
| "typeName (ModelRouterObject _) = ''*v1alpha1.ModelRouter''"
| "typeName (ModelRouterClassObject _) = ''*v1alpha1.ModelRouterClass''"
| "typeName (OtherObject t) = t"
| "typeName NilObject = ''<nil>''"

section \<open>Errors\<close>

text \<open>An error returned by the client of the object store, with its message.\<close>

datatype client_error = ClientError string

fun client_error_message :: "client_error \<Rightarrow> string" where
  "client_error_message (ClientError m) = m"

text \<open>
  A call \<open>fmt.Errorf(format, args...)\<close> is written as the list of the pieces of its
  format: the literal text between the verbs, and each verb with its argument.
\<close>

datatype fmt_piece =
    Lit string
  | V_d int
  | V_s string
  | V_q string
  | V_T runtime_Object
  | V_w client_error

fun formatPiece :: "rune_quoter \<Rightarrow> fmt_piece \<Rightarrow> string" where
  "formatPiece hi (Lit s) = s"
| "formatPiece hi (V_d i) = fmt_d i"
| "formatPiece hi (V_s s) = s"
| "formatPiece hi (V_q s) = strconv_Quote hi s"
| "formatPiece hi (V_T obj) = typeName obj"
| "formatPiece hi (V_w e) = client_error_message e"

definition Sprintf :: "rune_quoter \<Rightarrow> fmt_piece list \<Rightarrow> string" where
  "Sprintf hi ps = concat (map (formatPiece hi) ps)"

text \<open>
  \<open>field.Invalid(path, value, detail)\<close> of the Kubernetes validation library, and the
  path built by \<open>field.NewPath(...).Key(...)\<close>. The detail is the \<open>fmt.Sprintf\<close> call
  that builds it, written in pieces as above.
\<close>

datatype field_Path = NewPath "string list" | Key field_Path string

datatype field_ErrorType = ErrorTypeInvalid

record field_Error =
  field_Error_Type :: field_ErrorType
  field_Error_Field :: field_Path
  field_Error_BadValue :: string
  field_Error_Detail :: "fmt_piece list"

definition field_Invalid :: "field_Path \<Rightarrow> string \<Rightarrow> fmt_piece list \<Rightarrow> field_Error" where
  "field_Invalid p v detail =
     \<lparr>field_Error_Type = ErrorTypeInvalid, field_Error_Field = p,
      field_Error_BadValue = v, field_Error_Detail = detail\<rparr>"

text \<open>
  The errors the webhooks return: \<open>errors.New\<close>, \<open>fmt.Errorf\<close>, and the aggregate that
  \<open>ErrorList.ToAggregate\<close> builds of a non-empty list of field errors.
\<close>

datatype error =
    errors_New string
  | fmt_Errorf "fmt_piece list"
  | Aggregate "field_Error list"

text \<open>\<open>errors.Unwrap\<close>: the argument of the verb \<open>%w\<close>, when the error was built with one.\<close>

fun wrapped :: "fmt_piece list \<Rightarrow> client_error option" where
  "wrapped [] = None"
| "wrapped (V_w e # ps) = Some e"
| "wrapped (_ # ps) = wrapped ps"

fun errors_Unwrap :: "error \<Rightarrow> client_error option" where
  "errors_Unwrap (fmt_Errorf ps) = wrapped ps"
| "errors_Unwrap _ = None"

text \<open>
  The result of a validating entry point: \<open>(admission.Warnings, error)\<close>, \<open>nil\<close> being
  \<open>None\<close> in both components.
\<close>

type_synonym admission_result = "string list option \<times> error option"

section \<open>The AiGateway webhook\<close>

text \<open>
  The calls of the logger have no effect on what the webhooks return and are left out.
  \<open>Default\<close> mutates the object in place: the model returns the object after the call
  and the error.
\<close>

definition DefaultPort :: "32 word" where
  "DefaultPort = 4000"

definition AiGatewayCustomDefaulter_Default :: "runtime_Object \<Rightarrow> runtime_Object \<times> error option" where
  "AiGatewayCustomDefaulter_Default obj =
     (case obj of
        AiGatewayObject aiGateway \<Rightarrow>
          (if AiGatewaySpec_Port (AiGateway_Spec aiGateway) = 0
           then (AiGatewayObject
                   (aiGateway\<lparr>AiGateway_Spec :=
                      (AiGateway_Spec aiGateway)\<lparr>AiGatewaySpec_Port := DefaultPort\<rparr>\<rparr>), None)
           else (AiGatewayObject aiGateway, None))
      | _ \<Rightarrow> (obj, Some (fmt_Errorf [Lit ''expected an AiGateway object but got '', V_T obj])))"

definition providerModelSeparator :: string where
  "providerModelSeparator = ''/''"

text \<open>The loop over \<open>aiGateway.Spec.AiModels\<close>; past the last model it returns \<open>nil, nil\<close>.\<close>

fun validateAiGatewayModels :: "AiModel list \<Rightarrow> admission_result" where
  "validateAiGatewayModels [] = (None, None)"
| "validateAiGatewayModels (model # rest) =
     (if AiModel_Name model = [] then (None, Some (errors_New ''AI model name cannot be empty''))
      else (case strings_Cut (AiModel_Name model) providerModelSeparator of
              (provider, modelName, found) \<Rightarrow>
                if \<not> found \<or> provider = [] \<or> modelName = []
                then (None, Some (fmt_Errorf
                        [Lit ''model '', V_q (AiModel_Name model),
                         Lit ('' is malformed; format must be 'provider/model-name'' @ [CHR 0x27])]))
                else validateAiGatewayModels rest))"

definition validateAiGatewaySpec :: "AiGateway \<Rightarrow> admission_result" where
  "validateAiGatewaySpec aiGateway =
     (if sint (AiGatewaySpec_Port (AiGateway_Spec aiGateway)) \<le> 0
      then (None, Some (fmt_Errorf
              [Lit ''aiGateway port must be positive, got: '',
               V_d (sint (AiGatewaySpec_Port (AiGateway_Spec aiGateway)))]))
      else if length (AiGatewaySpec_AiModels (AiGateway_Spec aiGateway)) = 0
      then (None, Some (errors_New ''no AI models specified in AiGateway''))
      else validateAiGatewayModels (AiGatewaySpec_AiModels (AiGateway_Spec aiGateway)))"

definition AiGatewayCustomValidator_ValidateCreate :: "runtime_Object \<Rightarrow> admission_result" where
  "AiGatewayCustomValidator_ValidateCreate obj =
     (case obj of
        AiGatewayObject aiGateway \<Rightarrow> validateAiGatewaySpec aiGateway
      | _ \<Rightarrow> (None, Some (fmt_Errorf [Lit ''expected a AiGateway object but got '', V_T obj])))"

definition AiGatewayCustomValidator_ValidateUpdate ::
    "runtime_Object \<Rightarrow> runtime_Object \<Rightarrow> admission_result" where
  "AiGatewayCustomValidator_ValidateUpdate oldObj newObj =
     (case newObj of
        AiGatewayObject aiGateway \<Rightarrow> validateAiGatewaySpec aiGateway
      | _ \<Rightarrow> (None, Some (fmt_Errorf
                 [Lit ''expected a AiGateway object for the newObj but got '', V_T newObj])))"

definition AiGatewayCustomValidator_ValidateDelete :: "runtime_Object \<Rightarrow> admission_result" where
  "AiGatewayCustomValidator_ValidateDelete obj =
     (case obj of
        AiGatewayObject aiGateway \<Rightarrow> (None, None)
      | _ \<Rightarrow> (None, Some (fmt_Errorf [Lit ''expected a AiGateway object but got '', V_T obj])))"

section \<open>The ModelRouter webhook\<close>

definition ModelRouterCustomDefaulter_Default :: "runtime_Object \<Rightarrow> runtime_Object \<times> error option" where
  "ModelRouterCustomDefaulter_Default obj =
     (case obj of
        ModelRouterObject modelrouter \<Rightarrow>
          (if ModelRouterSpec_Port (ModelRouter_Spec modelrouter) = 0
           then (ModelRouterObject
                   (modelrouter\<lparr>ModelRouter_Spec :=
                      (ModelRouter_Spec modelrouter)\<lparr>ModelRouterSpec_Port := DefaultPort\<rparr>\<rparr>), None)
           else (ModelRouterObject modelrouter, None))
      | _ \<Rightarrow> (obj, Some (fmt_Errorf [Lit ''expected an ModelRouter object but got '', V_T obj])))"

fun validateModelRouterModels :: "RouterAiModel list \<Rightarrow> admission_result" where
  "validateModelRouterModels [] = (None, None)"
| "validateModelRouterModels (model # rest) =
     (if RouterAiModel_Name model = [] then (None, Some (errors_New ''AI model name cannot be empty''))
      else (case strings_Cut (RouterAiModel_Name model) providerModelSeparator of
              (provider, modelName, found) \<Rightarrow>
                if \<not> found \<or> provider = [] \<or> modelName = []
                then (None, Some (fmt_Errorf
                        [Lit ''model '', V_q (RouterAiModel_Name model),
                         Lit ('' is malformed; format must be 'provider/model-name'' @ [CHR 0x27])]))
                else validateModelRouterModels rest))"

definition validateModelRouterSpec :: "ModelRouter \<Rightarrow> admission_result" where
  "validateModelRouterSpec modelRouter =
     (if ModelRouterSpec_Type (ModelRouter_Spec modelRouter) = []
      then (None, Some (errors_New ''model router must specify a type''))
      else if sint (ModelRouterSpec_Port (ModelRouter_Spec modelRouter)) \<le> 0
      then (None, Some (fmt_Errorf
              [Lit ''modelRouter port must be positive, got: '',
               V_d (sint (ModelRouterSpec_Port (ModelRouter_Spec modelRouter)))]))
      else if length (ModelRouterSpec_AiModels (ModelRouter_Spec modelRouter)) = 0
      then (None, Some (errors_New ''no AI models specified in ModelRouter''))
      else validateModelRouterModels (ModelRouterSpec_AiModels (ModelRouter_Spec modelRouter)))"

definition ModelRouterCustomValidator_ValidateCreate :: "runtime_Object \<Rightarrow> admission_result" where
  "ModelRouterCustomValidator_ValidateCreate obj =
     (case obj of
        ModelRouterObject modelRouter \<Rightarrow> validateModelRouterSpec modelRouter
      | _ \<Rightarrow> (None, Some (fmt_Errorf [Lit ''expected a ModelRouter object but got '', V_T obj])))"

definition ModelRouterCustomValidator_ValidateUpdate ::
    "runtime_Object \<Rightarrow> runtime_Object \<Rightarrow> admission_result" where
  "ModelRouterCustomValidator_ValidateUpdate oldObj newObj =
     (case newObj of
        ModelRouterObject modelRouter \<Rightarrow> validateModelRouterSpec modelRouter
      | _ \<Rightarrow> (None, Some (fmt_Errorf
                 [Lit ''expected a ModelRouter object for the newObj but got '', V_T newObj])))"

definition ModelRouterCustomValidator_ValidateDelete :: "runtime_Object \<Rightarrow> admission_result" where
  "ModelRouterCustomValidator_ValidateDelete obj =
     (case obj of
        ModelRouterObject modelrouter \<Rightarrow> (None, None)
      | _ \<Rightarrow> (None, Some (fmt_Errorf [Lit ''expected a ModelRouter object but got '', V_T obj])))"

section \<open>The class webhooks\<close>

text \<open>
  A class validator holds a \<open>client.Client\<close>. The interface value may be nil (the
  zero value of the struct), which is \<open>None\<close>; a client is given by what its \<open>List\<close>
  call returns: an error, or the items it stores into the list. A call of a method on
  the nil interface panics.

  The class entry points return their result (or panic) together with the number of
  \<open>List\<close> calls they made on the client.
\<close>

record 'a ClassCustomValidator =
  Client :: "(client_error + 'a list) option"

datatype 'a outcome = Return 'a | Panic

type_synonym class_result = "admission_result outcome \<times> nat"

text \<open>Indexing a Go map: the zero value when the key is absent.\<close>

definition map_index :: "(string \<rightharpoonup> string) \<Rightarrow> string \<Rightarrow> string" where
  "map_index m k = (case m k of None \<Rightarrow> [] | Some v \<Rightarrow> v)"

text \<open>The test \<open>annotations != nil && annotations[DefaultClassAnnotation] == "true"\<close>.\<close>

definition isDefaultClass :: "string \<Rightarrow> (string \<rightharpoonup> string) option \<Rightarrow> bool" where
  "isDefaultClass key annotations =
     (case annotations of None \<Rightarrow> False | Some m \<Rightarrow> map_index m key = ''true'')"

subsection \<open>AiGatewayClass\<close>

definition AiGatewayClass_DefaultClassAnnotation :: string where
  "AiGatewayClass_DefaultClassAnnotation = ''aigateway.kubernetes.io/is-default-class''"

text \<open>
  The loop over the listed classes. It skips the class under validation by name, and
  at the first other class that is marked default it appends one field error and breaks.
\<close>

fun scanAiGatewayClasses ::
    "AiGatewayClass \<Rightarrow> AiGatewayClass list \<Rightarrow> field_Error list \<Rightarrow> field_Error list" where
  "scanAiGatewayClasses aiGatewayClass [] allErrs = allErrs"
| "scanAiGatewayClasses aiGatewayClass (existingClass # rest) allErrs =
     (if Name (AiGatewayClass_ObjectMeta existingClass) = Name (AiGatewayClass_ObjectMeta aiGatewayClass)
      then scanAiGatewayClasses aiGatewayClass rest allErrs
      else if isDefaultClass AiGatewayClass_DefaultClassAnnotation
                (Annotations (AiGatewayClass_ObjectMeta existingClass))
      then allErrs @
           [field_Invalid
              (Key (NewPath [''metadata'', ''annotations'']) AiGatewayClass_DefaultClassAnnotation)
              ''true''
              [Lit (''another AiGatewayClass '' @ [CHR 0x27]),
               V_s (Name (AiGatewayClass_ObjectMeta existingClass)),
               Lit (CHR 0x27 # '' already has the default class annotation set to 'true'. Only one AiGatewayClass can be marked as default'')]]
      else scanAiGatewayClasses aiGatewayClass rest allErrs)"

definition validateAiGatewayClass ::
    "AiGatewayClass ClassCustomValidator \<Rightarrow> AiGatewayClass \<Rightarrow> class_result" where
  "validateAiGatewayClass v aiGatewayClass =
     (if isDefaultClass AiGatewayClass_DefaultClassAnnotation
           (Annotations (AiGatewayClass_ObjectMeta aiGatewayClass))
      then (case Client v of
              None \<Rightarrow> (Panic, 0)
            | Some (Inl err) \<Rightarrow>
                (Return (None, Some (fmt_Errorf
                   [Lit ''failed to list AiGatewayClass resources: '', V_w err])), 1)
            | Some (Inr items) \<Rightarrow>
                (let allErrs = scanAiGatewayClasses aiGatewayClass items []
                 in if length allErrs > 0 then (Return (None, Some (Aggregate allErrs)), 1)
                    else (Return (None, None), 1)))
      else (Return (None, None), 0))"

definition AiGatewayClassCustomValidator_ValidateCreate ::
    "AiGatewayClass ClassCustomValidator \<Rightarrow> runtime_Object \<Rightarrow> class_result" where
  "AiGatewayClassCustomValidator_ValidateCreate v obj =
     (case obj of
        AiGatewayClassObject aiGatewayClass \<Rightarrow> validateAiGatewayClass v aiGatewayClass
      | _ \<Rightarrow> (Return (None, Some (fmt_Errorf
                 [Lit ''expected a AiGatewayClass object but got '', V_T obj])), 0))"

definition AiGatewayClassCustomValidator_ValidateUpdate ::
    "AiGatewayClass ClassCustomValidator \<Rightarrow> runtime_Object \<Rightarrow> runtime_Object \<Rightarrow> class_result" where
  "AiGatewayClassCustomValidator_ValidateUpdate v oldObj newObj =
     (case newObj of
        AiGatewayClassObject aiGatewayClass \<Rightarrow> validateAiGatewayClass v aiGatewayClass
      | _ \<Rightarrow> (Return (None, Some (fmt_Errorf
                 [Lit ''expected a AiGatewayClass object for the newObj but got '', V_T newObj])), 0))"

definition AiGatewayClassCustomValidator_ValidateDelete ::
    "AiGatewayClass ClassCustomValidator \<Rightarrow> runtime_Object \<Rightarrow> class_result" where
  "AiGatewayClassCustomValidator_ValidateDelete v obj = (Return (None, None), 0)"

subsection \<open>ModelRouterClass\<close>

definition ModelRouterClass_DefaultClassAnnotation :: string where
  "ModelRouterClass_DefaultClassAnnotation = ''modelrouter.kubernetes.io/is-default-class''"

fun scanModelRouterClasses ::
    "ModelRouterClass \<Rightarrow> ModelRouterClass list \<Rightarrow> field_Error list \<Rightarrow> field_Error list" where
  "scanModelRouterClasses modelRouterClass [] allErrs = allErrs"
| "scanModelRouterClasses modelRouterClass (existingClass # rest) allErrs =
     (if Name (ModelRouterClass_ObjectMeta existingClass) = Name (ModelRouterClass_ObjectMeta modelRouterClass)
      then scanModelRouterClasses modelRouterClass rest allErrs
      else if isDefaultClass ModelRouterClass_DefaultClassAnnotation
                (Annotations (ModelRouterClass_ObjectMeta existingClass))
      then allErrs @
           [field_Invalid
              (Key (NewPath [''metadata'', ''annotations'']) ModelRouterClass_DefaultClassAnnotation)
              ''true''
              [Lit (''another ModelRouterClass '' @ [CHR 0x27]),
               V_s (Name (ModelRouterClass_ObjectMeta existingClass)),
               Lit (CHR 0x27 # '' already has the default class annotation set to 'true'. Only one ModelRouterClass can be marked as default'')]]
      else scanModelRouterClasses modelRouterClass rest allErrs)"

definition validateModelRouterClass ::
    "ModelRouterClass ClassCustomValidator \<Rightarrow> ModelRouterClass \<Rightarrow> class_result" where
  "validateModelRouterClass v modelRouterClass =
     (if isDefaultClass ModelRouterClass_DefaultClassAnnotation
           (Annotations (ModelRouterClass_ObjectMeta modelRouterClass))
      then (case Client v of
              None \<Rightarrow> (Panic, 0)
            | Some (Inl err) \<Rightarrow>
                (Return (None, Some (fmt_Errorf
                   [Lit ''failed to list ModelRouterClass resources: '', V_w err])), 1)
            | Some (Inr items) \<Rightarrow>
                (let allErrs = scanModelRouterClasses modelRouterClass items []
                 in if length allErrs > 0 then (Return (None, Some (Aggregate allErrs)), 1)
                    else (Return (None, None), 1)))
      else (Return (None, None), 0))"

definition ModelRouterClassCustomValidator_ValidateCreate ::
    "ModelRouterClass ClassCustomValidator \<Rightarrow> runtime_Object \<Rightarrow> class_result" where
  "ModelRouterClassCustomValidator_ValidateCreate v obj =
     (case obj of
        ModelRouterClassObject modelRouterClass \<Rightarrow> validateModelRouterClass v modelRouterClass
      | _ \<Rightarrow> (Return (None, Some (fmt_Errorf
                 [Lit ''expected a ModelRouterClass object but got '', V_T obj])), 0))"

definition ModelRouterClassCustomValidator_ValidateUpdate ::
    "ModelRouterClass ClassCustomValidator \<Rightarrow> runtime_Object \<Rightarrow> runtime_Object \<Rightarrow> class_result" where
  "ModelRouterClassCustomValidator_ValidateUpdate v oldObj newObj =
     (case newObj of
        ModelRouterClassObject modelRouterClass \<Rightarrow> validateModelRouterClass v modelRouterClass
      | _ \<Rightarrow> (Return (None, Some (fmt_Errorf
                 [Lit ''expected a ModelRouterClass object for the newObj but got '', V_T newObj])), 0))"

definition ModelRouterClassCustomValidator_ValidateDelete ::
    "ModelRouterClass ClassCustomValidator \<Rightarrow> runtime_Object \<Rightarrow> class_result" where
  "ModelRouterClassCustomValidator_ValidateDelete v obj = (Return (None, None), 0)"

subsection \<open>Shorthands for the statements about the class webhooks\<close>

text \<open>
  The field error that the loop appends for a conflicting class of a given name, the
  test for the default annotation on a class, and \<open>GetName\<close>.
\<close>

abbreviation AiGatewayClass_conflict :: "string \<Rightarrow> field_Error" where
  "AiGatewayClass_conflict n \<equiv>
     field_Invalid
       (Key (NewPath [''metadata'', ''annotations'']) AiGatewayClass_DefaultClassAnnotation)
       ''true''
       [Lit (''another AiGatewayClass '' @ [CHR 0x27]), V_s n,
        Lit (CHR 0x27 # '' already has the default class annotation set to 'true'. Only one AiGatewayClass can be marked as default'')]"

abbreviation ModelRouterClass_conflict :: "string \<Rightarrow> field_Error" where
  "ModelRouterClass_conflict n \<equiv>
     field_Invalid
       (Key (NewPath [''metadata'', ''annotations'']) ModelRouterClass_DefaultClassAnnotation)
       ''true''
       [Lit (''another ModelRouterClass '' @ [CHR 0x27]), V_s n,
        Lit (CHR 0x27 # '' already has the default class annotation set to 'true'. Only one ModelRouterClass can be marked as default'')]"

abbreviation AiGatewayClass_isDefault :: "AiGatewayClass \<Rightarrow> bool" where
  "AiGatewayClass_isDefault c \<equiv>
     isDefaultClass AiGatewayClass_DefaultClassAnnotation (Annotations (AiGatewayClass_ObjectMeta c))"

abbreviation ModelRouterClass_isDefault :: "ModelRouterClass \<Rightarrow> bool" where
  "ModelRouterClass_isDefault c \<equiv>
     isDefaultClass ModelRouterClass_DefaultClassAnnotation (Annotations (ModelRouterClass_ObjectMeta c))"

abbreviation AiGatewayClass_GetName :: "AiGatewayClass \<Rightarrow> string" where
  "AiGatewayClass_GetName c \<equiv> Name (AiGatewayClass_ObjectMeta c)"

abbreviation ModelRouterClass_GetName :: "ModelRouterClass \<Rightarrow> string" where
  "ModelRouterClass_GetName c \<equiv> Name (ModelRouterClass_ObjectMeta c)"

subsection \<open>Shorthands for the statements about the router components\<close>

text \<open>
  A name splits at its first separator into a non-empty provider and a non-empty model
  name; and the error that the loop returns for a name that does not.
\<close>

abbreviation splits_provider_model :: "string \<Rightarrow> bool" where
  "splits_provider_model name \<equiv>
     \<exists>provider modelName. provider \<noteq> [] \<and> modelName \<noteq> [] \<and> CHR ''/'' \<notin> set provider
        \<and> name = provider @ CHR ''/'' # modelName"

abbreviation malformed_model :: "string \<Rightarrow> error" where
  "malformed_model name \<equiv>
     fmt_Errorf [Lit ''model '', V_q name,
                 Lit ('' is malformed; format must be 'provider/model-name'' @ [CHR 0x27])]"

section \<open>Lemmas on the library functions and on the loops\<close>

lemma strings_Index_take: "take (length t) s = t \<Longrightarrow> strings_Index s t = 0"
  by (cases s) simp_all

lemma strings_Index_append: "strings_Index (a @ n @ b) n \<ge> 0"
proof (induction a)
  case Nil
  then show ?case by (simp add: strings_Index_take)
next
  case (Cons c a)
  then show ?case by (simp add: Let_def)
qed

lemma strings_Contains_append: "strings_Contains (a @ n @ b) n"
  by (simp add: strings_Contains_def strings_Index_append)

lemma strings_Contains_suffix: "strings_Contains (a @ n) n"
  using strings_Contains_append [of a n "[]"] by simp

lemma scanAiGatewayClasses_filter:
  "scanAiGatewayClasses c items acc =
   scanAiGatewayClasses c
     (filter (\<lambda>e. Name (AiGatewayClass_ObjectMeta e) \<noteq> Name (AiGatewayClass_ObjectMeta c)) items) acc"
  by (induction items) simp_all

lemma scanModelRouterClasses_filter:
  "scanModelRouterClasses c items acc =
   scanModelRouterClasses c
     (filter (\<lambda>e. Name (ModelRouterClass_ObjectMeta e) \<noteq> Name (ModelRouterClass_ObjectMeta c)) items) acc"
  by (induction items) simp_all

lemma scanAiGatewayClasses_same_name:
  "scanAiGatewayClasses c
     (map (\<lambda>e. e\<lparr>AiGatewayClass_ObjectMeta :=
                  (AiGatewayClass_ObjectMeta e)\<lparr>Name := Name (AiGatewayClass_ObjectMeta c)\<rparr>\<rparr>) items) acc = acc"
  by (induction items) simp_all

lemma scanModelRouterClasses_same_name:
  "scanModelRouterClasses c
     (map (\<lambda>e. e\<lparr>ModelRouterClass_ObjectMeta :=
                  (ModelRouterClass_ObjectMeta e)\<lparr>Name := Name (ModelRouterClass_ObjectMeta c)\<rparr>\<rparr>) items) acc = acc"
  by (induction items) simp_all

lemma scanAiGatewayClasses_find:
  "scanAiGatewayClasses c items acc =
     acc @ (case find (\<lambda>e. AiGatewayClass_GetName e \<noteq> AiGatewayClass_GetName c
                             \<and> AiGatewayClass_isDefault e) items of
              None \<Rightarrow> []
            | Some e \<Rightarrow> [AiGatewayClass_conflict (AiGatewayClass_GetName e)])"
  by (induction items) simp_all

lemma scanModelRouterClasses_find:
  "scanModelRouterClasses c items acc =
     acc @ (case find (\<lambda>e. ModelRouterClass_GetName e \<noteq> ModelRouterClass_GetName c
                             \<and> ModelRouterClass_isDefault e) items of
              None \<Rightarrow> []
            | Some e \<Rightarrow> [ModelRouterClass_conflict (ModelRouterClass_GetName e)])"
  by (induction items) simp_all

lemma validateAiGatewayClass_listed:
  assumes "Client v = Some (Inr items)"
  shows "validateAiGatewayClass v c =
     (if AiGatewayClass_isDefault c
      then (case find (\<lambda>e. AiGatewayClass_GetName e \<noteq> AiGatewayClass_GetName c
                              \<and> AiGatewayClass_isDefault e) items of
              None \<Rightarrow> (Return (None, None), 1)
            | Some e \<Rightarrow>
                (Return (None, Some (Aggregate [AiGatewayClass_conflict (AiGatewayClass_GetName e)])), 1))
      else (Return (None, None), 0))"
  using assms
  by (simp add: validateAiGatewayClass_def scanAiGatewayClasses_find Let_def split: option.split)

lemma validateModelRouterClass_listed:
  assumes "Client v = Some (Inr items)"
  shows "validateModelRouterClass v c =
     (if ModelRouterClass_isDefault c
      then (case find (\<lambda>e. ModelRouterClass_GetName e \<noteq> ModelRouterClass_GetName c
                              \<and> ModelRouterClass_isDefault e) items of
              None \<Rightarrow> (Return (None, None), 1)
            | Some e \<Rightarrow>
                (Return (None, Some (Aggregate [ModelRouterClass_conflict (ModelRouterClass_GetName e)])), 1))
      else (Return (None, None), 0))"
  using assms
  by (simp add: validateModelRouterClass_def scanModelRouterClasses_find Let_def split: option.split)

lemma validateAiGatewayClass_rejects_iff:
  assumes "Client v = Some (Inr items)"
  shows "(fst (validateAiGatewayClass v c) \<noteq> Return (None, None)) =
         (AiGatewayClass_isDefault c \<and>
          (\<exists>x\<in>set items. AiGatewayClass_GetName x \<noteq> AiGatewayClass_GetName c \<and> AiGatewayClass_isDefault x))"
proof (cases "find (\<lambda>e. AiGatewayClass_GetName e \<noteq> AiGatewayClass_GetName c
                              \<and> AiGatewayClass_isDefault e) items")
  case None
  then have "\<not> (\<exists>x\<in>set items. AiGatewayClass_GetName x \<noteq> AiGatewayClass_GetName c \<and> AiGatewayClass_isDefault x)"
    by (simp add: find_None_iff)
  with None show ?thesis
    by (simp add: validateAiGatewayClass_listed [OF assms])
next
  case (Some e)
  then have "e \<in> set items \<and> AiGatewayClass_GetName e \<noteq> AiGatewayClass_GetName c \<and> AiGatewayClass_isDefault e"
    by (auto simp: find_Some_iff)
  then have "\<exists>x\<in>set items. AiGatewayClass_GetName x \<noteq> AiGatewayClass_GetName c \<and> AiGatewayClass_isDefault x"
    by blast
  with Some show ?thesis
    by (simp add: validateAiGatewayClass_listed [OF assms])
qed

lemma validateAiGatewayClass_names_conflict:
  assumes "Client v = Some (Inr items)"
  shows "fst (validateAiGatewayClass v c) = Return (None, None) \<or>
         (\<exists>x\<in>set items. AiGatewayClass_GetName x \<noteq> AiGatewayClass_GetName c \<and> AiGatewayClass_isDefault x \<and>
            fst (validateAiGatewayClass v c) =
              Return (None, Some (Aggregate [AiGatewayClass_conflict (AiGatewayClass_GetName x)])))"
proof (cases "find (\<lambda>e. AiGatewayClass_GetName e \<noteq> AiGatewayClass_GetName c
                              \<and> AiGatewayClass_isDefault e) items")
  case None
  then show ?thesis by (simp add: validateAiGatewayClass_listed [OF assms])
next
  case (Some e)
  then have e: "e \<in> set items \<and> AiGatewayClass_GetName e \<noteq> AiGatewayClass_GetName c \<and> AiGatewayClass_isDefault e"
    by (auto simp: find_Some_iff)
  show ?thesis
  proof (cases "AiGatewayClass_isDefault c")
    case True
    with Some have "fst (validateAiGatewayClass v c) =
        Return (None, Some (Aggregate [AiGatewayClass_conflict (AiGatewayClass_GetName e)]))"
      by (simp add: validateAiGatewayClass_listed [OF assms])
    with e show ?thesis by blast
  next
    case False
    then show ?thesis by (simp add: validateAiGatewayClass_listed [OF assms])
  qed
qed

lemma validateModelRouterClass_rejects_iff:
  assumes "Client v = Some (Inr items)"
  shows "(fst (validateModelRouterClass v c) \<noteq> Return (None, None)) =
         (ModelRouterClass_isDefault c \<and>
          (\<exists>x\<in>set items. ModelRouterClass_GetName x \<noteq> ModelRouterClass_GetName c \<and> ModelRouterClass_isDefault x))"
proof (cases "find (\<lambda>e. ModelRouterClass_GetName e \<noteq> ModelRouterClass_GetName c
                              \<and> ModelRouterClass_isDefault e) items")
  case None
  then have "\<not> (\<exists>x\<in>set items. ModelRouterClass_GetName x \<noteq> ModelRouterClass_GetName c \<and> ModelRouterClass_isDefault x)"
    by (simp add: find_None_iff)
  with None show ?thesis
    by (simp add: validateModelRouterClass_listed [OF assms])
next
  case (Some e)
  then have "e \<in> set items \<and> ModelRouterClass_GetName e \<noteq> ModelRouterClass_GetName c \<and> ModelRouterClass_isDefault e"
    by (auto simp: find_Some_iff)
  then have "\<exists>x\<in>set items. ModelRouterClass_GetName x \<noteq> ModelRouterClass_GetName c \<and> ModelRouterClass_isDefault x"
    by blast
  with Some show ?thesis
    by (simp add: validateModelRouterClass_listed [OF assms])
qed

lemma validateModelRouterClass_names_conflict:
  assumes "Client v = Some (Inr items)"
  shows "fst (validateModelRouterClass v c) = Return (None, None) \<or>
         (\<exists>x\<in>set items. ModelRouterClass_GetName x \<noteq> ModelRouterClass_GetName c \<and> ModelRouterClass_isDefault x \<and>
            fst (validateModelRouterClass v c) =
              Return (None, Some (Aggregate [ModelRouterClass_conflict (ModelRouterClass_GetName x)])))"
proof (cases "find (\<lambda>e. ModelRouterClass_GetName e \<noteq> ModelRouterClass_GetName c
                              \<and> ModelRouterClass_isDefault e) items")
  case None
  then show ?thesis by (simp add: validateModelRouterClass_listed [OF assms])
next
  case (Some e)
  then have e: "e \<in> set items \<and> ModelRouterClass_GetName e \<noteq> ModelRouterClass_GetName c \<and> ModelRouterClass_isDefault e"
    by (auto simp: find_Some_iff)
  show ?thesis
  proof (cases "ModelRouterClass_isDefault c")
    case True
    with Some have "fst (validateModelRouterClass v c) =
        Return (None, Some (Aggregate [ModelRouterClass_conflict (ModelRouterClass_GetName e)]))"
      by (simp add: validateModelRouterClass_listed [OF assms])
    with e show ?thesis by blast
  next
    case False
    then show ?thesis by (simp add: validateModelRouterClass_listed [OF assms])
  qed
qed

lemma conflict_detail_names:
  "strings_Contains (Sprintf hi (field_Error_Detail (AiGatewayClass_conflict n))) n"
  "strings_Contains (Sprintf hi (field_Error_Detail (ModelRouterClass_conflict n))) n"
  using strings_Contains_append [of "''another AiGatewayClass '' @ [CHR 0x27]" n]
        strings_Contains_append [of "''another ModelRouterClass '' @ [CHR 0x27]" n]
  by (simp_all add: Sprintf_def field_Invalid_def)

lemma validateAiGatewayModels_ignores_Provider:
  "validateAiGatewayModels (map (\<lambda>m. m\<lparr>AiModel_Provider := p\<rparr>) ms) = validateAiGatewayModels ms"
  by (induction ms) (simp_all split: prod.split)

lemma strings_Index_char:
  "strings_Index s [c] = (if c \<in> set s then int (length (takeWhile (\<lambda>x. x \<noteq> c) s)) else - 1)"
  by (induction s) (simp_all add: Let_def)

lemma strings_Cut_char:
  "strings_Cut s [c] =
     (if c \<in> set s then (takeWhile (\<lambda>x. x \<noteq> c) s, tl (dropWhile (\<lambda>x. x \<noteq> c) s), True)
      else (s, [], False))"
proof -
  let ?P = "\<lambda>x. x \<noteq> c"
  have t: "take (length (takeWhile ?P s)) s = takeWhile ?P s"
    by (rule takeWhile_eq_take [symmetric])
  have d: "drop (Suc (length (takeWhile ?P s))) s = tl (dropWhile ?P s)"
    by (simp add: dropWhile_eq_drop drop_Suc tl_drop)
  show ?thesis
    by (simp add: strings_Cut_def strings_Index_char Let_def t d)
qed

lemma splits_iff_first_separator:
  "splits_provider_model name =
     (CHR ''/'' \<in> set name \<and> takeWhile (\<lambda>x. x \<noteq> CHR ''/'') name \<noteq> []
      \<and> tl (dropWhile (\<lambda>x. x \<noteq> CHR ''/'') name) \<noteq> [])"
proof
  assume "splits_provider_model name"
  then obtain p m where pm: "p \<noteq> []" "m \<noteq> []" "CHR ''/'' \<notin> set p" "name = p @ CHR ''/'' # m"
    by blast
  then show "CHR ''/'' \<in> set name \<and> takeWhile (\<lambda>x. x \<noteq> CHR ''/'') name \<noteq> []
      \<and> tl (dropWhile (\<lambda>x. x \<noteq> CHR ''/'') name) \<noteq> []"
    by (simp add: takeWhile_append dropWhile_append)
next
  let ?P = "\<lambda>x. x \<noteq> CHR ''/''"
  assume a: "CHR ''/'' \<in> set name \<and> takeWhile ?P name \<noteq> [] \<and> tl (dropWhile ?P name) \<noteq> []"
  then have "dropWhile ?P name \<noteq> []" by auto
  then obtain y ys where d: "dropWhile ?P name = y # ys" by (cases "dropWhile ?P name") auto
  then have "\<not> ?P y" using hd_dropWhile [of ?P name] by fastforce
  then have y: "y = CHR ''/''" by simp
  have "name = takeWhile ?P name @ dropWhile ?P name" by simp
  with d y have n: "name = takeWhile ?P name @ CHR ''/'' # ys" by simp
  have np: "CHR ''/'' \<notin> set (takeWhile ?P name)"
    by (auto dest: set_takeWhileD)
  from a d have "ys \<noteq> []" by simp
  with a n np show "splits_provider_model name" by blast
qed

lemma validateModelRouterModels_step:
  "validateModelRouterModels (m # rest) =
     (if RouterAiModel_Name m = [] then (None, Some (errors_New ''AI model name cannot be empty''))
      else if splits_provider_model (RouterAiModel_Name m) then validateModelRouterModels rest
      else (None, Some (malformed_model (RouterAiModel_Name m))))"
  unfolding splits_iff_first_separator
  by (simp add: providerModelSeparator_def strings_Cut_char)

lemma splits_nonempty: "splits_provider_model name \<Longrightarrow> name \<noteq> []"
  by auto

lemma validateModelRouterModels_accepts_iff:
  "(validateModelRouterModels ms = (None, None)) =
     (\<forall>m\<in>set ms. splits_provider_model (RouterAiModel_Name m))"
proof (induction ms)
  case Nil
  then show ?case by simp
next
  case (Cons m ms)
  show ?case
  proof (cases "splits_provider_model (RouterAiModel_Name m)")
    case True
    then have "RouterAiModel_Name m \<noteq> []" by (rule splits_nonempty)
    with True Cons show ?thesis
      by (simp only: validateModelRouterModels_step if_False if_True set_simps ball_simps simp_thms)
  next
    case False
    then show ?thesis
      by (simp only: validateModelRouterModels_step set_simps ball_simps simp_thms
          split: if_split) simp
  qed
qed

lemma appendQuoted_plain:
  "\<forall>c\<in>set s. 0x20 \<le> (of_char c :: nat) \<and> (of_char c :: nat) < 0x7F \<and> c \<noteq> CHR 0x22 \<and> c \<noteq> CHR 0x5C
   \<Longrightarrow> appendQuoted hi s = s"
  by (induction s) (simp_all add: appendEscapedRune_def)

section \<open>Properties of the webhooks\<close>

text \<open>
  Claim C6. For an instance of either family, the defaulter sets the port to 4000
  exactly when the incoming port is 0 and leaves every other port, negative ones too,
  as it is (the rest of the object is never touched); applying it twice gives the same
  object and the same error as applying it once.
\<close>

theorem Default_sets_port_only_when_zero:
  "AiGatewayCustomDefaulter_Default (AiGatewayObject g) =
     (AiGatewayObject
        (g\<lparr>AiGateway_Spec := (AiGateway_Spec g)\<lparr>AiGatewaySpec_Port :=
            (if AiGatewaySpec_Port (AiGateway_Spec g) = 0 then 4000
             else AiGatewaySpec_Port (AiGateway_Spec g))\<rparr>\<rparr>), None)
   \<and> ModelRouterCustomDefaulter_Default (ModelRouterObject r) =
     (ModelRouterObject
        (r\<lparr>ModelRouter_Spec := (ModelRouter_Spec r)\<lparr>ModelRouterSpec_Port :=
            (if ModelRouterSpec_Port (ModelRouter_Spec r) = 0 then 4000
             else ModelRouterSpec_Port (ModelRouter_Spec r))\<rparr>\<rparr>), None)
   \<and> (fst (AiGatewayCustomDefaulter_Default (AiGatewayObject g)) \<noteq> AiGatewayObject g)
       = (AiGatewaySpec_Port (AiGateway_Spec g) = 0)
   \<and> (fst (ModelRouterCustomDefaulter_Default (ModelRouterObject r)) \<noteq> ModelRouterObject r)
       = (ModelRouterSpec_Port (ModelRouter_Spec r) = 0)
   \<and> AiGatewayCustomDefaulter_Default (fst (AiGatewayCustomDefaulter_Default obj))
       = AiGatewayCustomDefaulter_Default obj
   \<and> ModelRouterCustomDefaulter_Default (fst (ModelRouterCustomDefaulter_Default obj))
       = ModelRouterCustomDefaulter_Default obj"
proof -
  have g1: "AiGatewayCustomDefaulter_Default (AiGatewayObject g) =
     (AiGatewayObject
        (g\<lparr>AiGateway_Spec := (AiGateway_Spec g)\<lparr>AiGatewaySpec_Port :=
            (if AiGatewaySpec_Port (AiGateway_Spec g) = 0 then 4000
             else AiGatewaySpec_Port (AiGateway_Spec g))\<rparr>\<rparr>), None)"
    by (simp add: AiGatewayCustomDefaulter_Default_def DefaultPort_def)
  have r1: "ModelRouterCustomDefaulter_Default (ModelRouterObject r) =
     (ModelRouterObject
        (r\<lparr>ModelRouter_Spec := (ModelRouter_Spec r)\<lparr>ModelRouterSpec_Port :=
            (if ModelRouterSpec_Port (ModelRouter_Spec r) = 0 then 4000
             else ModelRouterSpec_Port (ModelRouter_Spec r))\<rparr>\<rparr>), None)"
    by (simp add: ModelRouterCustomDefaulter_Default_def DefaultPort_def)
  have g2: "(fst (AiGatewayCustomDefaulter_Default (AiGatewayObject g)) \<noteq> AiGatewayObject g)
       = (AiGatewaySpec_Port (AiGateway_Spec g) = 0)"
  proof (cases "AiGatewaySpec_Port (AiGateway_Spec g) = 0")
    case True
    have "AiGatewaySpec_Port (AiGateway_Spec
            (g\<lparr>AiGateway_Spec := (AiGateway_Spec g)\<lparr>AiGatewaySpec_Port := DefaultPort\<rparr>\<rparr>)) \<noteq>
          AiGatewaySpec_Port (AiGateway_Spec g)"
      using True by (simp add: DefaultPort_def)
    then have "g\<lparr>AiGateway_Spec := (AiGateway_Spec g)\<lparr>AiGatewaySpec_Port := DefaultPort\<rparr>\<rparr> \<noteq> g"
      by metis
    with True show ?thesis by (simp add: AiGatewayCustomDefaulter_Default_def)
  next
    case False
    then show ?thesis by (simp add: AiGatewayCustomDefaulter_Default_def)
  qed
  have r2: "(fst (ModelRouterCustomDefaulter_Default (ModelRouterObject r)) \<noteq> ModelRouterObject r)
       = (ModelRouterSpec_Port (ModelRouter_Spec r) = 0)"
  proof (cases "ModelRouterSpec_Port (ModelRouter_Spec r) = 0")
    case True
    have "ModelRouterSpec_Port (ModelRouter_Spec
            (r\<lparr>ModelRouter_Spec := (ModelRouter_Spec r)\<lparr>ModelRouterSpec_Port := DefaultPort\<rparr>\<rparr>)) \<noteq>
          ModelRouterSpec_Port (ModelRouter_Spec r)"
      using True by (simp add: DefaultPort_def)
    then have "r\<lparr>ModelRouter_Spec := (ModelRouter_Spec r)\<lparr>ModelRouterSpec_Port := DefaultPort\<rparr>\<rparr> \<noteq> r"
      by metis
    with True show ?thesis by (simp add: ModelRouterCustomDefaulter_Default_def)
  next
    case False
    then show ?thesis by (simp add: ModelRouterCustomDefaulter_Default_def)
  qed
  have g3: "AiGatewayCustomDefaulter_Default (fst (AiGatewayCustomDefaulter_Default obj))
       = AiGatewayCustomDefaulter_Default obj"
    by (cases obj) (simp_all add: AiGatewayCustomDefaulter_Default_def DefaultPort_def)
  have r3: "ModelRouterCustomDefaulter_Default (fst (ModelRouterCustomDefaulter_Default obj))
       = ModelRouterCustomDefaulter_Default obj"
    by (cases obj) (simp_all add: ModelRouterCustomDefaulter_Default_def DefaultPort_def)
  from g1 r1 g2 r2 g3 r3 show ?thesis by blast
qed

text \<open>
  Claim C7. For the class kinds, \<open>ValidateDelete\<close> accepts whatever it receives: it
  returns no warnings and no error for every validator and every payload (a payload of
  another type, a class marked default), and it never calls the client.
\<close>

theorem class_ValidateDelete_accepts:
  "AiGatewayClassCustomValidator_ValidateDelete v obj = (Return (None, None), 0)
   \<and> ModelRouterClassCustomValidator_ValidateDelete w obj = (Return (None, None), 0)"
  by (simp add: AiGatewayClassCustomValidator_ValidateDelete_def
      ModelRouterClassCustomValidator_ValidateDelete_def)

text \<open>
  Claim C9. For every kind, the result of \<open>ValidateUpdate\<close> does not depend on the
  prior object: with the same proposed object (and, for the class kinds, the same
  validator, hence the same listing) any two prior objects give the same result.
\<close>

theorem ValidateUpdate_ignores_oldObj:
  "AiGatewayCustomValidator_ValidateUpdate old1 new = AiGatewayCustomValidator_ValidateUpdate old2 new
   \<and> ModelRouterCustomValidator_ValidateUpdate old1 new = ModelRouterCustomValidator_ValidateUpdate old2 new
   \<and> AiGatewayClassCustomValidator_ValidateUpdate v old1 new
       = AiGatewayClassCustomValidator_ValidateUpdate v old2 new
   \<and> ModelRouterClassCustomValidator_ValidateUpdate w old1 new
       = ModelRouterClassCustomValidator_ValidateUpdate w old2 new"
  by (simp add: AiGatewayCustomValidator_ValidateUpdate_def
      ModelRouterCustomValidator_ValidateUpdate_def
      AiGatewayClassCustomValidator_ValidateUpdate_def
      ModelRouterClassCustomValidator_ValidateUpdate_def)

text \<open>
  Claim C10. The conflict scan leaves out listed objects by name equality with the
  candidate and by nothing else: the result of the validator is the same when every
  listed object that bears the candidate's name is removed from the listing, whatever
  the namespace, annotations and spec of those objects; and a listing whose objects all
  bear the candidate's name never leads to a rejection.
\<close>

theorem scan_excludes_by_name_only:
  "validateAiGatewayClass \<lparr>Client = Some (Inr items)\<rparr> c =
     validateAiGatewayClass
       \<lparr>Client = Some (Inr (filter (\<lambda>e. Name (AiGatewayClass_ObjectMeta e) \<noteq>
                                        Name (AiGatewayClass_ObjectMeta c)) items))\<rparr> c
   \<and> fst (validateAiGatewayClass
         \<lparr>Client = Some (Inr (map (\<lambda>e. e\<lparr>AiGatewayClass_ObjectMeta :=
              (AiGatewayClass_ObjectMeta e)\<lparr>Name := Name (AiGatewayClass_ObjectMeta c)\<rparr>\<rparr>) items))\<rparr> c)
       = Return (None, None)
   \<and> validateModelRouterClass \<lparr>Client = Some (Inr ritems)\<rparr> rc =
     validateModelRouterClass
       \<lparr>Client = Some (Inr (filter (\<lambda>e. Name (ModelRouterClass_ObjectMeta e) \<noteq>
                                        Name (ModelRouterClass_ObjectMeta rc)) ritems))\<rparr> rc
   \<and> fst (validateModelRouterClass
         \<lparr>Client = Some (Inr (map (\<lambda>e. e\<lparr>ModelRouterClass_ObjectMeta :=
              (ModelRouterClass_ObjectMeta e)\<lparr>Name := Name (ModelRouterClass_ObjectMeta rc)\<rparr>\<rparr>) ritems))\<rparr> rc)
       = Return (None, None)"
proof -
  have a: "validateAiGatewayClass \<lparr>Client = Some (Inr items)\<rparr> c =
     validateAiGatewayClass
       \<lparr>Client = Some (Inr (filter (\<lambda>e. Name (AiGatewayClass_ObjectMeta e) \<noteq>
                                        Name (AiGatewayClass_ObjectMeta c)) items))\<rparr> c"
    using scanAiGatewayClasses_filter [of c items "[]"]
    by (simp add: validateAiGatewayClass_def)
  have b: "fst (validateAiGatewayClass
         \<lparr>Client = Some (Inr (map (\<lambda>e. e\<lparr>AiGatewayClass_ObjectMeta :=
              (AiGatewayClass_ObjectMeta e)\<lparr>Name := Name (AiGatewayClass_ObjectMeta c)\<rparr>\<rparr>) items))\<rparr> c)
       = Return (None, None)"
    by (simp add: validateAiGatewayClass_def scanAiGatewayClasses_same_name)
  have c: "validateModelRouterClass \<lparr>Client = Some (Inr ritems)\<rparr> rc =
     validateModelRouterClass
       \<lparr>Client = Some (Inr (filter (\<lambda>e. Name (ModelRouterClass_ObjectMeta e) \<noteq>
                                        Name (ModelRouterClass_ObjectMeta rc)) ritems))\<rparr> rc"
    using scanModelRouterClasses_filter [of rc ritems "[]"]
    by (simp add: validateModelRouterClass_def)
  have d: "fst (validateModelRouterClass
         \<lparr>Client = Some (Inr (map (\<lambda>e. e\<lparr>ModelRouterClass_ObjectMeta :=
              (ModelRouterClass_ObjectMeta e)\<lparr>Name := Name (ModelRouterClass_ObjectMeta rc)\<rparr>\<rparr>) ritems))\<rparr> rc)
       = Return (None, None)"
    by (simp add: validateModelRouterClass_def scanModelRouterClasses_same_name)
  from a b c d show ?thesis by blast
qed

text \<open>
  Claim C8. For the instance kinds, \<open>ValidateDelete\<close> returns an error exactly when the
  payload is not of the expected concrete kind; the message names the expected kind and
  the type observed (\<open>%T\<close>). Every payload of the expected kind is accepted, whatever
  its spec holds.
\<close>

theorem instance_ValidateDelete_checks_type_only:
  "AiGatewayCustomValidator_ValidateDelete (AiGatewayObject g) = (None, None)
   \<and> ModelRouterCustomValidator_ValidateDelete (ModelRouterObject r) = (None, None)
   \<and> AiGatewayCustomValidator_ValidateDelete obj =
       (if (\<exists>a. obj = AiGatewayObject a) then (None, None)
        else (None, Some (fmt_Errorf [Lit ''expected a AiGateway object but got '', V_T obj])))
   \<and> ModelRouterCustomValidator_ValidateDelete obj =
       (if (\<exists>a. obj = ModelRouterObject a) then (None, None)
        else (None, Some (fmt_Errorf [Lit ''expected a ModelRouter object but got '', V_T obj])))
   \<and> (snd (AiGatewayCustomValidator_ValidateDelete obj) = None) = (\<exists>a. obj = AiGatewayObject a)
   \<and> (snd (ModelRouterCustomValidator_ValidateDelete obj) = None) = (\<exists>a. obj = ModelRouterObject a)
   \<and> Sprintf hi [Lit ''expected a AiGateway object but got '', V_T obj]
       = ''expected a AiGateway object but got '' @ typeName obj
   \<and> Sprintf hi [Lit ''expected a ModelRouter object but got '', V_T obj]
       = ''expected a ModelRouter object but got '' @ typeName obj
   \<and> strings_Contains (Sprintf hi [Lit ''expected a AiGateway object but got '', V_T obj]) ''AiGateway''
   \<and> strings_Contains (Sprintf hi [Lit ''expected a AiGateway object but got '', V_T obj]) (typeName obj)
   \<and> strings_Contains (Sprintf hi [Lit ''expected a ModelRouter object but got '', V_T obj]) ''ModelRouter''
   \<and> strings_Contains (Sprintf hi [Lit ''expected a ModelRouter object but got '', V_T obj]) (typeName obj)"
proof -
  have g: "AiGatewayCustomValidator_ValidateDelete obj =
       (if (\<exists>a. obj = AiGatewayObject a) then (None, None)
        else (None, Some (fmt_Errorf [Lit ''expected a AiGateway object but got '', V_T obj])))"
    by (cases obj) (simp_all add: AiGatewayCustomValidator_ValidateDelete_def)
  have r: "ModelRouterCustomValidator_ValidateDelete obj =
       (if (\<exists>a. obj = ModelRouterObject a) then (None, None)
        else (None, Some (fmt_Errorf [Lit ''expected a ModelRouter object but got '', V_T obj])))"
    by (cases obj) (simp_all add: ModelRouterCustomValidator_ValidateDelete_def)
  have g0: "AiGatewayCustomValidator_ValidateDelete (AiGatewayObject g) = (None, None)"
    by (simp add: AiGatewayCustomValidator_ValidateDelete_def)
  have r0: "ModelRouterCustomValidator_ValidateDelete (ModelRouterObject r) = (None, None)"
    by (simp add: ModelRouterCustomValidator_ValidateDelete_def)
  have g1: "(snd (AiGatewayCustomValidator_ValidateDelete obj) = None) = (\<exists>a. obj = AiGatewayObject a)"
    by (simp add: g)
  have r1: "(snd (ModelRouterCustomValidator_ValidateDelete obj) = None) = (\<exists>a. obj = ModelRouterObject a)"
    by (simp add: r)
  have gm: "Sprintf hi [Lit ''expected a AiGateway object but got '', V_T obj]
       = ''expected a AiGateway object but got '' @ typeName obj"
    by (simp add: Sprintf_def)
  have rm: "Sprintf hi [Lit ''expected a ModelRouter object but got '', V_T obj]
       = ''expected a ModelRouter object but got '' @ typeName obj"
    by (simp add: Sprintf_def)
  have gk: "strings_Contains (''expected a AiGateway object but got '' @ typeName obj) ''AiGateway''"
    using strings_Contains_append [of "''expected a ''" "''AiGateway''" "'' object but got '' @ typeName obj"]
    by simp
  have rk: "strings_Contains (''expected a ModelRouter object but got '' @ typeName obj) ''ModelRouter''"
    using strings_Contains_append [of "''expected a ''" "''ModelRouter''" "'' object but got '' @ typeName obj"]
    by simp
  have gt: "strings_Contains (''expected a AiGateway object but got '' @ typeName obj) (typeName obj)"
    by (rule strings_Contains_suffix)
  have rt: "strings_Contains (''expected a ModelRouter object but got '' @ typeName obj) (typeName obj)"
    by (rule strings_Contains_suffix)
  show ?thesis
    unfolding gm rm using g r g0 r0 g1 r1 gk rk gt rt by blast
qed

text \<open>
  Claim C1. For a class candidate of either family passed to \<open>ValidateCreate\<close> or
  \<open>ValidateUpdate\<close>, when the listing succeeds the validator rejects exactly when the
  candidate's annotations map the reserved key to "true" and some listed class with
  another name maps it to "true" as well; the rejection is the aggregate of one field
  error whose detail names such a conflicting class; and a candidate that is not marked
  is accepted without any call of \<open>List\<close>, whatever the client is.
\<close>

theorem default_singleton_decision:
  assumes "Client v = Some (Inr items)" and "Client w = Some (Inr ritems)"
  shows
  "((fst (validateAiGatewayClass v c) \<noteq> Return (None, None)) =
      (AiGatewayClass_isDefault c \<and>
       (\<exists>x\<in>set items. AiGatewayClass_GetName x \<noteq> AiGatewayClass_GetName c \<and> AiGatewayClass_isDefault x)))
   \<and> (fst (validateAiGatewayClass v c) = Return (None, None) \<or>
       (\<exists>x\<in>set items. AiGatewayClass_GetName x \<noteq> AiGatewayClass_GetName c \<and> AiGatewayClass_isDefault x \<and>
          fst (validateAiGatewayClass v c) =
            Return (None, Some (Aggregate [AiGatewayClass_conflict (AiGatewayClass_GetName x)]))))
   \<and> strings_Contains (Sprintf hi (field_Error_Detail (AiGatewayClass_conflict n))) n
   \<and> (\<not> AiGatewayClass_isDefault c \<longrightarrow> validateAiGatewayClass v0 c = (Return (None, None), 0))
   \<and> AiGatewayClassCustomValidator_ValidateCreate v0 (AiGatewayClassObject c) = validateAiGatewayClass v0 c
   \<and> AiGatewayClassCustomValidator_ValidateUpdate v0 old (AiGatewayClassObject c) = validateAiGatewayClass v0 c
   \<and> ((fst (validateModelRouterClass w rc) \<noteq> Return (None, None)) =
      (ModelRouterClass_isDefault rc \<and>
       (\<exists>x\<in>set ritems. ModelRouterClass_GetName x \<noteq> ModelRouterClass_GetName rc \<and> ModelRouterClass_isDefault x)))
   \<and> (fst (validateModelRouterClass w rc) = Return (None, None) \<or>
       (\<exists>x\<in>set ritems. ModelRouterClass_GetName x \<noteq> ModelRouterClass_GetName rc \<and> ModelRouterClass_isDefault x \<and>
          fst (validateModelRouterClass w rc) =
            Return (None, Some (Aggregate [ModelRouterClass_conflict (ModelRouterClass_GetName x)]))))
   \<and> strings_Contains (Sprintf hi (field_Error_Detail (ModelRouterClass_conflict n))) n
   \<and> (\<not> ModelRouterClass_isDefault rc \<longrightarrow> validateModelRouterClass w0 rc = (Return (None, None), 0))
   \<and> ModelRouterClassCustomValidator_ValidateCreate w0 (ModelRouterClassObject rc) = validateModelRouterClass w0 rc
   \<and> ModelRouterClassCustomValidator_ValidateUpdate w0 old (ModelRouterClassObject rc) = validateModelRouterClass w0 rc"
proof -
  have d1: "\<not> AiGatewayClass_isDefault c \<longrightarrow> validateAiGatewayClass v0 c = (Return (None, None), 0)"
    by (simp add: validateAiGatewayClass_def)
  have d2: "\<not> ModelRouterClass_isDefault rc \<longrightarrow> validateModelRouterClass w0 rc = (Return (None, None), 0)"
    by (simp add: validateModelRouterClass_def)
  have e1: "AiGatewayClassCustomValidator_ValidateCreate v0 (AiGatewayClassObject c) = validateAiGatewayClass v0 c"
    by (simp add: AiGatewayClassCustomValidator_ValidateCreate_def)
  have e2: "AiGatewayClassCustomValidator_ValidateUpdate v0 old (AiGatewayClassObject c) = validateAiGatewayClass v0 c"
    by (simp add: AiGatewayClassCustomValidator_ValidateUpdate_def)
  have e3: "ModelRouterClassCustomValidator_ValidateCreate w0 (ModelRouterClassObject rc) = validateModelRouterClass w0 rc"
    by (simp add: ModelRouterClassCustomValidator_ValidateCreate_def)
  have e4: "ModelRouterClassCustomValidator_ValidateUpdate w0 old (ModelRouterClassObject rc) = validateModelRouterClass w0 rc"
    by (simp add: ModelRouterClassCustomValidator_ValidateUpdate_def)
  note a1 = validateAiGatewayClass_rejects_iff [OF assms(1), of c]
  note b1 = validateAiGatewayClass_names_conflict [OF assms(1), of c]
  note a2 = validateModelRouterClass_rejects_iff [OF assms(2), of rc]
  note b2 = validateModelRouterClass_names_conflict [OF assms(2), of rc]
  note n = conflict_detail_names [of hi n]
  show ?thesis
    using a1 b1 a2 b2 n d1 d2 e1 e2 e3 e4 by (intro conjI) assumption+
qed

theorem default_singleton_decision_witness:
  "Client \<lparr>Client = Some (Inr [\<lparr>AiGatewayClass_ObjectMeta =
            \<lparr>Name = ''existing-default-class'', Namespace = ''default'',
             Annotations = Some [AiGatewayClass_DefaultClassAnnotation \<mapsto> ''true'']\<rparr>,
          AiGatewayClass_Spec = \<lparr>AiGatewayClassSpec_Controller = ''test-controller''\<rparr>\<rparr>])\<rparr>
     = Some (Inr [\<lparr>AiGatewayClass_ObjectMeta =
            \<lparr>Name = ''existing-default-class'', Namespace = ''default'',
             Annotations = Some [AiGatewayClass_DefaultClassAnnotation \<mapsto> ''true'']\<rparr>,
          AiGatewayClass_Spec = \<lparr>AiGatewayClassSpec_Controller = ''test-controller''\<rparr>\<rparr>])
   \<and> Client \<lparr>Client = Some (Inr [\<lparr>ModelRouterClass_ObjectMeta =
            \<lparr>Name = ''existing-default-class'', Namespace = ''default'',
             Annotations = Some [ModelRouterClass_DefaultClassAnnotation \<mapsto> ''true'']\<rparr>,
          ModelRouterClass_Spec = \<lparr>ModelRouterClassSpec_Controller = ''test-controller''\<rparr>\<rparr>])\<rparr>
     = Some (Inr [\<lparr>ModelRouterClass_ObjectMeta =
            \<lparr>Name = ''existing-default-class'', Namespace = ''default'',
             Annotations = Some [ModelRouterClass_DefaultClassAnnotation \<mapsto> ''true'']\<rparr>,
          ModelRouterClass_Spec = \<lparr>ModelRouterClassSpec_Controller = ''test-controller''\<rparr>\<rparr>])
   \<and> fst (validateAiGatewayClass
        \<lparr>Client = Some (Inr [\<lparr>AiGatewayClass_ObjectMeta =
            \<lparr>Name = ''existing-default-class'', Namespace = ''default'',
             Annotations = Some [AiGatewayClass_DefaultClassAnnotation \<mapsto> ''true'']\<rparr>,
          AiGatewayClass_Spec = \<lparr>AiGatewayClassSpec_Controller = ''test-controller''\<rparr>\<rparr>])\<rparr>
        \<lparr>AiGatewayClass_ObjectMeta =
            \<lparr>Name = ''test-class-second-default'', Namespace = [],
             Annotations = Some [AiGatewayClass_DefaultClassAnnotation \<mapsto> ''true'']\<rparr>,
          AiGatewayClass_Spec = \<lparr>AiGatewayClassSpec_Controller = ''test-controller''\<rparr>\<rparr>)
       = Return (None, Some (Aggregate [AiGatewayClass_conflict ''existing-default-class'']))
   \<and> fst (validateModelRouterClass
        \<lparr>Client = Some (Inr [\<lparr>ModelRouterClass_ObjectMeta =
            \<lparr>Name = ''existing-default-class'', Namespace = ''default'',
             Annotations = Some [ModelRouterClass_DefaultClassAnnotation \<mapsto> ''true'']\<rparr>,
          ModelRouterClass_Spec = \<lparr>ModelRouterClassSpec_Controller = ''test-controller''\<rparr>\<rparr>])\<rparr>
        \<lparr>ModelRouterClass_ObjectMeta =
            \<lparr>Name = ''test-class-second-default'', Namespace = [],
             Annotations = Some [ModelRouterClass_DefaultClassAnnotation \<mapsto> ''true'']\<rparr>,
          ModelRouterClass_Spec = \<lparr>ModelRouterClassSpec_Controller = ''test-controller''\<rparr>\<rparr>)
       = Return (None, Some (Aggregate [ModelRouterClass_conflict ''existing-default-class'']))
   \<and> validateAiGatewayClass \<lparr>Client = None\<rparr>
        \<lparr>AiGatewayClass_ObjectMeta =
            \<lparr>Name = ''test-class-no-default'', Namespace = [], Annotations = None\<rparr>,
          AiGatewayClass_Spec = \<lparr>AiGatewayClassSpec_Controller = ''test-controller''\<rparr>\<rparr>
       = (Return (None, None), 0)
   \<and> validateModelRouterClass \<lparr>Client = None\<rparr>
        \<lparr>ModelRouterClass_ObjectMeta =
            \<lparr>Name = ''test-class-no-default'', Namespace = [], Annotations = None\<rparr>,
          ModelRouterClass_Spec = \<lparr>ModelRouterClassSpec_Controller = ''test-controller''\<rparr>\<rparr>
       = (Return (None, None), 0)"
proof -
  let ?gn = "\<lparr>AiGatewayClass_ObjectMeta =
            \<lparr>Name = ''test-class-no-default'', Namespace = [], Annotations = None\<rparr>,
          AiGatewayClass_Spec = \<lparr>AiGatewayClassSpec_Controller = ''test-controller''\<rparr>\<rparr>"
  let ?rn = "\<lparr>ModelRouterClass_ObjectMeta =
            \<lparr>Name = ''test-class-no-default'', Namespace = [], Annotations = None\<rparr>,
          ModelRouterClass_Spec = \<lparr>ModelRouterClassSpec_Controller = ''test-controller''\<rparr>\<rparr>"
  let ?ge = "\<lparr>AiGatewayClass_ObjectMeta =
            \<lparr>Name = ''existing-default-class'', Namespace = ''default'',
             Annotations = Some [AiGatewayClass_DefaultClassAnnotation \<mapsto> ''true'']\<rparr>,
          AiGatewayClass_Spec = \<lparr>AiGatewayClassSpec_Controller = ''test-controller''\<rparr>\<rparr>"
  let ?gc = "\<lparr>AiGatewayClass_ObjectMeta =
            \<lparr>Name = ''test-class-second-default'', Namespace = [],
             Annotations = Some [AiGatewayClass_DefaultClassAnnotation \<mapsto> ''true'']\<rparr>,
          AiGatewayClass_Spec = \<lparr>AiGatewayClassSpec_Controller = ''test-controller''\<rparr>\<rparr>"
  let ?re = "\<lparr>ModelRouterClass_ObjectMeta =
            \<lparr>Name = ''existing-default-class'', Namespace = ''default'',
             Annotations = Some [ModelRouterClass_DefaultClassAnnotation \<mapsto> ''true'']\<rparr>,
          ModelRouterClass_Spec = \<lparr>ModelRouterClassSpec_Controller = ''test-controller''\<rparr>\<rparr>"
  let ?rc = "\<lparr>ModelRouterClass_ObjectMeta =
            \<lparr>Name = ''test-class-second-default'', Namespace = [],
             Annotations = Some [ModelRouterClass_DefaultClassAnnotation \<mapsto> ''true'']\<rparr>,
          ModelRouterClass_Spec = \<lparr>ModelRouterClassSpec_Controller = ''test-controller''\<rparr>\<rparr>"
  have h1: "Client \<lparr>Client = Some (Inr [?ge])\<rparr> = Some (Inr [?ge])" by simp
  have h2: "Client \<lparr>Client = Some (Inr [?re])\<rparr> = Some (Inr [?re])" by simp
  from default_singleton_decision [OF h1 h2, where c = ?gc and rc = ?rc]
  have ga: "(fst (validateAiGatewayClass \<lparr>Client = Some (Inr [?ge])\<rparr> ?gc) \<noteq> Return (None, None)) =
          (AiGatewayClass_isDefault ?gc \<and>
           (\<exists>x\<in>set [?ge]. AiGatewayClass_GetName x \<noteq> AiGatewayClass_GetName ?gc \<and> AiGatewayClass_isDefault x))"
    and gb: "fst (validateAiGatewayClass \<lparr>Client = Some (Inr [?ge])\<rparr> ?gc) = Return (None, None) \<or>
       (\<exists>x\<in>set [?ge]. AiGatewayClass_GetName x \<noteq> AiGatewayClass_GetName ?gc \<and> AiGatewayClass_isDefault x \<and>
          fst (validateAiGatewayClass \<lparr>Client = Some (Inr [?ge])\<rparr> ?gc) =
            Return (None, Some (Aggregate [AiGatewayClass_conflict (AiGatewayClass_GetName x)])))"
    and ra: "(fst (validateModelRouterClass \<lparr>Client = Some (Inr [?re])\<rparr> ?rc) \<noteq> Return (None, None)) =
          (ModelRouterClass_isDefault ?rc \<and>
           (\<exists>x\<in>set [?re]. ModelRouterClass_GetName x \<noteq> ModelRouterClass_GetName ?rc \<and> ModelRouterClass_isDefault x))"
    and rb: "fst (validateModelRouterClass \<lparr>Client = Some (Inr [?re])\<rparr> ?rc) = Return (None, None) \<or>
       (\<exists>x\<in>set [?re]. ModelRouterClass_GetName x \<noteq> ModelRouterClass_GetName ?rc \<and> ModelRouterClass_isDefault x \<and>
          fst (validateModelRouterClass \<lparr>Client = Some (Inr [?re])\<rparr> ?rc) =
            Return (None, Some (Aggregate [ModelRouterClass_conflict (ModelRouterClass_GetName x)])))"
    by blast+
  from ga have g1: "fst (validateAiGatewayClass \<lparr>Client = Some (Inr [?ge])\<rparr> ?gc) \<noteq> Return (None, None)"
    by (simp add: isDefaultClass_def map_index_def)
  from ra have r1: "fst (validateModelRouterClass \<lparr>Client = Some (Inr [?re])\<rparr> ?rc) \<noteq> Return (None, None)"
    by (simp add: isDefaultClass_def map_index_def)
  from gb g1 have g2: "fst (validateAiGatewayClass \<lparr>Client = Some (Inr [?ge])\<rparr> ?gc)
      = Return (None, Some (Aggregate [AiGatewayClass_conflict ''existing-default-class'']))"
    by simp
  from rb r1 have r2: "fst (validateModelRouterClass \<lparr>Client = Some (Inr [?re])\<rparr> ?rc)
      = Return (None, Some (Aggregate [ModelRouterClass_conflict ''existing-default-class'']))"
    by simp
  from default_singleton_decision [OF h1 h2, where c = ?gn and rc = ?rn
      and ?v0.0 = "\<lparr>Client = None\<rparr>" and ?w0.0 = "\<lparr>Client = None\<rparr>"]
  have gd: "\<not> AiGatewayClass_isDefault ?gn \<longrightarrow>
        validateAiGatewayClass \<lparr>Client = None\<rparr> ?gn = (Return (None, None), 0)"
    and rd: "\<not> ModelRouterClass_isDefault ?rn \<longrightarrow>
        validateModelRouterClass \<lparr>Client = None\<rparr> ?rn = (Return (None, None), 0)"
    by blast+
  from gd have g3: "validateAiGatewayClass \<lparr>Client = None\<rparr> ?gn = (Return (None, None), 0)"
    by (simp add: isDefaultClass_def)
  from rd have r3: "validateModelRouterClass \<lparr>Client = None\<rparr> ?rn = (Return (None, None), 0)"
    by (simp add: isDefaultClass_def)
  from h1 h2 g2 r2 g3 r3 show ?thesis by blast
qed

text \<open>
  Claim C5. When a class candidate carries the default annotation with value "true" and
  the \<open>List\<close> call fails, \<open>ValidateCreate\<close> and \<open>ValidateUpdate\<close> return an error, never
  an acceptance: the error is built with \<open>%w\<close> around the listing error (so
  \<open>errors.Unwrap\<close> gives it back and the message ends with its message), and it is not
  the aggregate of field errors that a singleton conflict produces.
\<close>

theorem listing_failure_fails_closed:
  assumes "AiGatewayClass_isDefault c" and "Client v = Some (Inl err)"
      and "ModelRouterClass_isDefault rc" and "Client w = Some (Inl rerr)"
  shows
  "AiGatewayClassCustomValidator_ValidateCreate v (AiGatewayClassObject c) =
      (Return (None, Some (fmt_Errorf [Lit ''failed to list AiGatewayClass resources: '', V_w err])), 1)
   \<and> AiGatewayClassCustomValidator_ValidateUpdate v old (AiGatewayClassObject c) =
      (Return (None, Some (fmt_Errorf [Lit ''failed to list AiGatewayClass resources: '', V_w err])), 1)
   \<and> errors_Unwrap (fmt_Errorf [Lit ''failed to list AiGatewayClass resources: '', V_w err]) = Some err
   \<and> Sprintf hi [Lit ''failed to list AiGatewayClass resources: '', V_w err] =
        ''failed to list AiGatewayClass resources: '' @ client_error_message err
   \<and> fmt_Errorf [Lit ''failed to list AiGatewayClass resources: '', V_w err] \<noteq> Aggregate errs
   \<and> ModelRouterClassCustomValidator_ValidateCreate w (ModelRouterClassObject rc) =
      (Return (None, Some (fmt_Errorf [Lit ''failed to list ModelRouterClass resources: '', V_w rerr])), 1)
   \<and> ModelRouterClassCustomValidator_ValidateUpdate w old (ModelRouterClassObject rc) =
      (Return (None, Some (fmt_Errorf [Lit ''failed to list ModelRouterClass resources: '', V_w rerr])), 1)
   \<and> errors_Unwrap (fmt_Errorf [Lit ''failed to list ModelRouterClass resources: '', V_w rerr]) = Some rerr
   \<and> Sprintf hi [Lit ''failed to list ModelRouterClass resources: '', V_w rerr] =
        ''failed to list ModelRouterClass resources: '' @ client_error_message rerr
   \<and> fmt_Errorf [Lit ''failed to list ModelRouterClass resources: '', V_w rerr] \<noteq> Aggregate errs"
proof -
  have g: "validateAiGatewayClass v c =
      (Return (None, Some (fmt_Errorf [Lit ''failed to list AiGatewayClass resources: '', V_w err])), 1)"
    using assms(1,2) by (simp add: validateAiGatewayClass_def)
  have r: "validateModelRouterClass w rc =
      (Return (None, Some (fmt_Errorf [Lit ''failed to list ModelRouterClass resources: '', V_w rerr])), 1)"
    using assms(3,4) by (simp add: validateModelRouterClass_def)
  have g1: "AiGatewayClassCustomValidator_ValidateCreate v (AiGatewayClassObject c) =
      (Return (None, Some (fmt_Errorf [Lit ''failed to list AiGatewayClass resources: '', V_w err])), 1)"
    by (simp add: AiGatewayClassCustomValidator_ValidateCreate_def g)
  have g2: "AiGatewayClassCustomValidator_ValidateUpdate v old (AiGatewayClassObject c) =
      (Return (None, Some (fmt_Errorf [Lit ''failed to list AiGatewayClass resources: '', V_w err])), 1)"
    by (simp add: AiGatewayClassCustomValidator_ValidateUpdate_def g)
  have r1: "ModelRouterClassCustomValidator_ValidateCreate w (ModelRouterClassObject rc) =
      (Return (None, Some (fmt_Errorf [Lit ''failed to list ModelRouterClass resources: '', V_w rerr])), 1)"
    by (simp add: ModelRouterClassCustomValidator_ValidateCreate_def r)
  have r2: "ModelRouterClassCustomValidator_ValidateUpdate w old (ModelRouterClassObject rc) =
      (Return (None, Some (fmt_Errorf [Lit ''failed to list ModelRouterClass resources: '', V_w rerr])), 1)"
    by (simp add: ModelRouterClassCustomValidator_ValidateUpdate_def r)
  have u: "errors_Unwrap (fmt_Errorf [Lit ''failed to list AiGatewayClass resources: '', V_w err]) = Some err"
    "errors_Unwrap (fmt_Errorf [Lit ''failed to list ModelRouterClass resources: '', V_w rerr]) = Some rerr"
    by simp_all
  have m: "Sprintf hi [Lit ''failed to list AiGatewayClass resources: '', V_w err] =
        ''failed to list AiGatewayClass resources: '' @ client_error_message err"
    "Sprintf hi [Lit ''failed to list ModelRouterClass resources: '', V_w rerr] =
        ''failed to list ModelRouterClass resources: '' @ client_error_message rerr"
    by (simp_all add: Sprintf_def)
  have d: "fmt_Errorf [Lit ''failed to list AiGatewayClass resources: '', V_w err] \<noteq> Aggregate errs"
    "fmt_Errorf [Lit ''failed to list ModelRouterClass resources: '', V_w rerr] \<noteq> Aggregate errs"
    by simp_all
  show ?thesis
    using g1 g2 r1 r2 u m d by (intro conjI) assumption+
qed

theorem listing_failure_fails_closed_witness:
  "AiGatewayClass_isDefault
     \<lparr>AiGatewayClass_ObjectMeta =
        \<lparr>Name = ''test-class-first-default'', Namespace = [],
         Annotations = Some [AiGatewayClass_DefaultClassAnnotation \<mapsto> ''true'']\<rparr>,
      AiGatewayClass_Spec = \<lparr>AiGatewayClassSpec_Controller = ''test-controller''\<rparr>\<rparr>
   \<and> ModelRouterClass_isDefault
     \<lparr>ModelRouterClass_ObjectMeta =
        \<lparr>Name = ''test-class-first-default'', Namespace = [],
         Annotations = Some [ModelRouterClass_DefaultClassAnnotation \<mapsto> ''true'']\<rparr>,
      ModelRouterClass_Spec = \<lparr>ModelRouterClassSpec_Controller = ''test-controller''\<rparr>\<rparr>
   \<and> AiGatewayClassCustomValidator_ValidateCreate
       \<lparr>Client = Some (Inl (ClientError ''connection refused''))\<rparr>
       (AiGatewayClassObject
         \<lparr>AiGatewayClass_ObjectMeta =
            \<lparr>Name = ''test-class-first-default'', Namespace = [],
             Annotations = Some [AiGatewayClass_DefaultClassAnnotation \<mapsto> ''true'']\<rparr>,
          AiGatewayClass_Spec = \<lparr>AiGatewayClassSpec_Controller = ''test-controller''\<rparr>\<rparr>)
     = (Return (None, Some (fmt_Errorf [Lit ''failed to list AiGatewayClass resources: '',
                                        V_w (ClientError ''connection refused'')])), 1)
   \<and> ModelRouterClassCustomValidator_ValidateUpdate
       \<lparr>Client = Some (Inl (ClientError ''connection refused''))\<rparr>
       NilObject
       (ModelRouterClassObject
         \<lparr>ModelRouterClass_ObjectMeta =
            \<lparr>Name = ''test-class-first-default'', Namespace = [],
             Annotations = Some [ModelRouterClass_DefaultClassAnnotation \<mapsto> ''true'']\<rparr>,
          ModelRouterClass_Spec = \<lparr>ModelRouterClassSpec_Controller = ''test-controller''\<rparr>\<rparr>)
     = (Return (None, Some (fmt_Errorf [Lit ''failed to list ModelRouterClass resources: '',
                                        V_w (ClientError ''connection refused'')])), 1)
   \<and> Sprintf quoteInvalidByte [Lit ''failed to list AiGatewayClass resources: '',
                                V_w (ClientError ''connection refused'')]
     = ''failed to list AiGatewayClass resources: connection refused''"
proof -
  let ?gc = "\<lparr>AiGatewayClass_ObjectMeta =
        \<lparr>Name = ''test-class-first-default'', Namespace = [],
         Annotations = Some [AiGatewayClass_DefaultClassAnnotation \<mapsto> ''true'']\<rparr>,
      AiGatewayClass_Spec = \<lparr>AiGatewayClassSpec_Controller = ''test-controller''\<rparr>\<rparr>"
  let ?rc = "\<lparr>ModelRouterClass_ObjectMeta =
        \<lparr>Name = ''test-class-first-default'', Namespace = [],
         Annotations = Some [ModelRouterClass_DefaultClassAnnotation \<mapsto> ''true'']\<rparr>,
      ModelRouterClass_Spec = \<lparr>ModelRouterClassSpec_Controller = ''test-controller''\<rparr>\<rparr>"
  let ?e = "ClientError ''connection refused''"
  have h1: "AiGatewayClass_isDefault ?gc" by (simp add: isDefaultClass_def map_index_def)
  have h3: "ModelRouterClass_isDefault ?rc" by (simp add: isDefaultClass_def map_index_def)
  have h2: "Client \<lparr>Client = Some (Inl ?e) :: (client_error + AiGatewayClass list) option\<rparr> = Some (Inl ?e)"
    by simp
  have h4: "Client \<lparr>Client = Some (Inl ?e) :: (client_error + ModelRouterClass list) option\<rparr> = Some (Inl ?e)"
    by simp
  from listing_failure_fails_closed [OF h1 h2 h3 h4, where old = NilObject and hi = quoteInvalidByte]
  show ?thesis using h1 h3 by simp
qed

text \<open>
  Claim C2 states that the gateway validator accepts a component exactly when its
  \<open>name\<close> and its \<open>provider\<close> are both non-empty, with a message of its own for an empty
  provider and no need of a separator in the name. The code under \<open>validateAiGatewaySpec\<close>
  does otherwise, against the tests that come with it: it never reads the provider and
  cuts the name at the separator. The theorem evaluates the code on the inputs of those
  tests (a valid spec is rejected, an empty provider gets the message of a malformed
  name), on a component with an empty provider that is accepted, and shows that the
  provider never matters.
\<close>

theorem gateway_validator_never_reads_provider:
  "AiGatewayCustomValidator_ValidateCreate
     (AiGatewayObject
        \<lparr>AiGateway_ObjectMeta = \<lparr>Name = [], Namespace = [], Annotations = None\<rparr>,
         AiGateway_Spec =
           \<lparr>AiGatewaySpec_AiGatewayClassName = [], AiGatewaySpec_Port = 4000,
            AiGatewaySpec_AiModels =
              [\<lparr>AiModel_Name = ''gpt-4'', AiModel_Provider = ''openai''\<rparr>,
               \<lparr>AiModel_Name = ''claude-3-opus'', AiModel_Provider = ''anthropic''\<rparr>]\<rparr>\<rparr>)
     = (None, Some (fmt_Errorf
          [Lit ''model '', V_q ''gpt-4'',
           Lit ('' is malformed; format must be 'provider/model-name'' @ [CHR 0x27])]))
   \<and> AiGatewayCustomValidator_ValidateCreate
     (AiGatewayObject
        \<lparr>AiGateway_ObjectMeta = \<lparr>Name = [], Namespace = [], Annotations = None\<rparr>,
         AiGateway_Spec =
           \<lparr>AiGatewaySpec_AiGatewayClassName = [], AiGatewaySpec_Port = 4000,
            AiGatewaySpec_AiModels =
              [\<lparr>AiModel_Name = ''gpt-4'', AiModel_Provider = []\<rparr>]\<rparr>\<rparr>)
     = (None, Some (fmt_Errorf
          [Lit ''model '', V_q ''gpt-4'',
           Lit ('' is malformed; format must be 'provider/model-name'' @ [CHR 0x27])]))
   \<and> AiGatewayCustomValidator_ValidateCreate
     (AiGatewayObject
        \<lparr>AiGateway_ObjectMeta = \<lparr>Name = [], Namespace = [], Annotations = None\<rparr>,
         AiGateway_Spec =
           \<lparr>AiGatewaySpec_AiGatewayClassName = [], AiGatewaySpec_Port = 4000,
            AiGatewaySpec_AiModels =
              [\<lparr>AiModel_Name = ''openai/gpt-4'', AiModel_Provider = []\<rparr>]\<rparr>\<rparr>)
     = (None, None)
   \<and> Sprintf quoteInvalidByte
        [Lit ''model '', V_q ''gpt-4'',
         Lit ('' is malformed; format must be 'provider/model-name'' @ [CHR 0x27])]
     = ''model '' @ [CHR 0x22] @ ''gpt-4'' @ [CHR 0x22] @
       '' is malformed; format must be 'provider/model-name'' @ [CHR 0x27]
   \<and> validateAiGatewayModels (map (\<lambda>m. m\<lparr>AiModel_Provider := p\<rparr>) ms) = validateAiGatewayModels ms"
proof -
  have cut1: "strings_Cut ''gpt-4'' ''/'' = (''gpt-4'', [], False)"
    by (simp add: strings_Cut_def Let_def)
  have cut2: "strings_Cut ''openai/gpt-4'' ''/'' = (''openai'', ''gpt-4'', True)"
    by (simp add: strings_Cut_def Let_def)
  have q: "strconv_Quote quoteInvalidByte ''gpt-4'' = [CHR 0x22] @ ''gpt-4'' @ [CHR 0x22]"
    by (simp add: strconv_Quote_def appendEscapedRune_def)
  show ?thesis
    by (simp add: AiGatewayCustomValidator_ValidateCreate_def validateAiGatewaySpec_def
        providerModelSeparator_def cut1 cut2 q Sprintf_def validateAiGatewayModels_ignores_Provider)
qed

text \<open>
  Claim C3 states that the port rule comes first in every instance validator. In the
  router family the \<open>type\<close> rule precedes it: a router with an empty type and the port
  -1 is rejected for the type, by a message that does not hold the port value.
\<close>

theorem router_type_rule_precedes_port_counterexample:
  "validateModelRouterSpec
     \<lparr>ModelRouter_ObjectMeta = \<lparr>Name = ''router'', Namespace = ''default'', Annotations = None\<rparr>,
      ModelRouter_Spec =
        \<lparr>ModelRouterSpec_Type = [], ModelRouterSpec_Port = - 1,
         ModelRouterSpec_AiModels = [\<lparr>RouterAiModel_Name = ''openai/gpt-4''\<rparr>]\<rparr>\<rparr>
     = (None, Some (errors_New ''model router must specify a type''))
   \<and> fmt_d (sint (- 1 :: 32 word)) = ''-1''
   \<and> \<not> strings_Contains ''model router must specify a type'' ''-1''"
  by (simp add: validateModelRouterSpec_def fmt_d_def formatDecimal.simps digit_def
      strings_Contains_def Let_def)

text \<open>
  Claim C3, amended. Every instance spec whose port is less than or equal to 0 is
  rejected, on create and on update. In the gateway family the port rule is the first
  one and the message holds the port value as \<open>%d\<close> prints it. In the router family the
  type rule is applied before the port rule: with a non-empty type the rejection is the
  one for the port, with the port value in the message; with an empty type it is the
  one for the missing type.
\<close>

theorem nonpositive_port_is_rejected:
  assumes "sint (AiGatewaySpec_Port (AiGateway_Spec g)) \<le> 0"
      and "sint (ModelRouterSpec_Port (ModelRouter_Spec r)) \<le> 0"
  shows
  "validateAiGatewaySpec g =
     (None, Some (fmt_Errorf [Lit ''aiGateway port must be positive, got: '',
                              V_d (sint (AiGatewaySpec_Port (AiGateway_Spec g)))]))
   \<and> AiGatewayCustomValidator_ValidateCreate (AiGatewayObject g) = validateAiGatewaySpec g
   \<and> AiGatewayCustomValidator_ValidateUpdate old (AiGatewayObject g) = validateAiGatewaySpec g
   \<and> Sprintf hi [Lit ''aiGateway port must be positive, got: '',
                  V_d (sint (AiGatewaySpec_Port (AiGateway_Spec g)))]
       = ''aiGateway port must be positive, got: '' @ fmt_d (sint (AiGatewaySpec_Port (AiGateway_Spec g)))
   \<and> strings_Contains
        (Sprintf hi [Lit ''aiGateway port must be positive, got: '',
                     V_d (sint (AiGatewaySpec_Port (AiGateway_Spec g)))])
        (fmt_d (sint (AiGatewaySpec_Port (AiGateway_Spec g))))
   \<and> (ModelRouterSpec_Type (ModelRouter_Spec r) \<noteq> [] \<longrightarrow>
        validateModelRouterSpec r =
          (None, Some (fmt_Errorf [Lit ''modelRouter port must be positive, got: '',
                                   V_d (sint (ModelRouterSpec_Port (ModelRouter_Spec r)))])))
   \<and> (ModelRouterSpec_Type (ModelRouter_Spec r) = [] \<longrightarrow>
        validateModelRouterSpec r = (None, Some (errors_New ''model router must specify a type'')))
   \<and> ModelRouterCustomValidator_ValidateCreate (ModelRouterObject r) = validateModelRouterSpec r
   \<and> ModelRouterCustomValidator_ValidateUpdate old (ModelRouterObject r) = validateModelRouterSpec r
   \<and> Sprintf hi [Lit ''modelRouter port must be positive, got: '',
                  V_d (sint (ModelRouterSpec_Port (ModelRouter_Spec r)))]
       = ''modelRouter port must be positive, got: '' @ fmt_d (sint (ModelRouterSpec_Port (ModelRouter_Spec r)))
   \<and> strings_Contains
        (Sprintf hi [Lit ''modelRouter port must be positive, got: '',
                     V_d (sint (ModelRouterSpec_Port (ModelRouter_Spec r)))])
        (fmt_d (sint (ModelRouterSpec_Port (ModelRouter_Spec r))))"
proof -
  have g1: "validateAiGatewaySpec g =
     (None, Some (fmt_Errorf [Lit ''aiGateway port must be positive, got: '',
                              V_d (sint (AiGatewaySpec_Port (AiGateway_Spec g)))]))"
    using assms(1) by (simp add: validateAiGatewaySpec_def)
  have g2: "AiGatewayCustomValidator_ValidateCreate (AiGatewayObject g) = validateAiGatewaySpec g"
    by (simp add: AiGatewayCustomValidator_ValidateCreate_def)
  have g3: "AiGatewayCustomValidator_ValidateUpdate old (AiGatewayObject g) = validateAiGatewaySpec g"
    by (simp add: AiGatewayCustomValidator_ValidateUpdate_def)
  have m: "Sprintf hi [Lit s, V_d i] = s @ fmt_d i" for s i
    by (simp add: Sprintf_def)
  have k: "strings_Contains (Sprintf hi [Lit s, V_d i]) (fmt_d i)" for s i
    unfolding m by (rule strings_Contains_suffix)
  have r1: "ModelRouterSpec_Type (ModelRouter_Spec r) \<noteq> [] \<longrightarrow>
        validateModelRouterSpec r =
          (None, Some (fmt_Errorf [Lit ''modelRouter port must be positive, got: '',
                                   V_d (sint (ModelRouterSpec_Port (ModelRouter_Spec r)))]))"
    using assms(2) by (simp add: validateModelRouterSpec_def)
  have r2: "ModelRouterSpec_Type (ModelRouter_Spec r) = [] \<longrightarrow>
        validateModelRouterSpec r = (None, Some (errors_New ''model router must specify a type''))"
    by (simp add: validateModelRouterSpec_def)
  have r3: "ModelRouterCustomValidator_ValidateCreate (ModelRouterObject r) = validateModelRouterSpec r"
    by (simp add: ModelRouterCustomValidator_ValidateCreate_def)
  have r4: "ModelRouterCustomValidator_ValidateUpdate old (ModelRouterObject r) = validateModelRouterSpec r"
    by (simp add: ModelRouterCustomValidator_ValidateUpdate_def)
  show ?thesis
    using g1 g2 g3 m k r1 r2 r3 r4 by (intro conjI) (assumption | rule m k)+
qed

theorem nonpositive_port_is_rejected_witness:
  "sint (AiGatewaySpec_Port (AiGateway_Spec
     \<lparr>AiGateway_ObjectMeta = \<lparr>Name = ''gw'', Namespace = ''default'', Annotations = None\<rparr>,
      AiGateway_Spec =
        \<lparr>AiGatewaySpec_AiGatewayClassName = [], AiGatewaySpec_Port = 0,
         AiGatewaySpec_AiModels = [\<lparr>AiModel_Name = ''gpt-4'', AiModel_Provider = ''openai''\<rparr>]\<rparr>\<rparr>)) \<le> 0
   \<and> sint (ModelRouterSpec_Port (ModelRouter_Spec
     \<lparr>ModelRouter_ObjectMeta = \<lparr>Name = ''router'', Namespace = ''default'', Annotations = None\<rparr>,
      ModelRouter_Spec =
        \<lparr>ModelRouterSpec_Type = ''litellm'', ModelRouterSpec_Port = - 5,
         ModelRouterSpec_AiModels = [\<lparr>RouterAiModel_Name = ''openai/gpt-4''\<rparr>]\<rparr>\<rparr>)) \<le> 0
   \<and> AiGatewayCustomValidator_ValidateCreate (AiGatewayObject
     \<lparr>AiGateway_ObjectMeta = \<lparr>Name = ''gw'', Namespace = ''default'', Annotations = None\<rparr>,
      AiGateway_Spec =
        \<lparr>AiGatewaySpec_AiGatewayClassName = [], AiGatewaySpec_Port = 0,
         AiGatewaySpec_AiModels = [\<lparr>AiModel_Name = ''gpt-4'', AiModel_Provider = ''openai''\<rparr>]\<rparr>\<rparr>)
     = (None, Some (fmt_Errorf [Lit ''aiGateway port must be positive, got: '', V_d 0]))
   \<and> ModelRouterCustomValidator_ValidateCreate (ModelRouterObject
     \<lparr>ModelRouter_ObjectMeta = \<lparr>Name = ''router'', Namespace = ''default'', Annotations = None\<rparr>,
      ModelRouter_Spec =
        \<lparr>ModelRouterSpec_Type = ''litellm'', ModelRouterSpec_Port = - 5,
         ModelRouterSpec_AiModels = [\<lparr>RouterAiModel_Name = ''openai/gpt-4''\<rparr>]\<rparr>\<rparr>)
     = (None, Some (fmt_Errorf [Lit ''modelRouter port must be positive, got: '', V_d (- 5)]))
   \<and> Sprintf quoteInvalidByte [Lit ''modelRouter port must be positive, got: '', V_d (- 5)]
     = ''modelRouter port must be positive, got: -5''"
proof -
  let ?g = "\<lparr>AiGateway_ObjectMeta = \<lparr>Name = ''gw'', Namespace = ''default'', Annotations = None\<rparr>,
      AiGateway_Spec =
        \<lparr>AiGatewaySpec_AiGatewayClassName = [], AiGatewaySpec_Port = 0,
         AiGatewaySpec_AiModels = [\<lparr>AiModel_Name = ''gpt-4'', AiModel_Provider = ''openai''\<rparr>]\<rparr>\<rparr>"
  let ?r = "\<lparr>ModelRouter_ObjectMeta = \<lparr>Name = ''router'', Namespace = ''default'', Annotations = None\<rparr>,
      ModelRouter_Spec =
        \<lparr>ModelRouterSpec_Type = ''litellm'', ModelRouterSpec_Port = - 5,
         ModelRouterSpec_AiModels = [\<lparr>RouterAiModel_Name = ''openai/gpt-4''\<rparr>]\<rparr>\<rparr>"
  have h1: "sint (AiGatewaySpec_Port (AiGateway_Spec ?g)) \<le> 0" by simp
  have h2: "sint (ModelRouterSpec_Port (ModelRouter_Spec ?r)) \<le> 0" by simp
  have d: "fmt_d (- 5) = ''-5''"
    by (simp add: fmt_d_def formatDecimal.simps digit_def)
  from nonpositive_port_is_rejected [OF h1 h2, where hi = quoteInvalidByte]
  show ?thesis using h1 h2 d by simp
qed

text \<open>
  Claim C4 states that every router component whose name has no separator, or an empty
  part on either side of the first one, is rejected by a message that holds the literal
  name and the required shape. Two inputs show otherwise. The empty name has no
  separator and is rejected by "AI model name cannot be empty", which does not state the
  shape. The name \<open>a"b\<close> is rejected by a message that holds the name as \<open>%q\<close> quotes it,
  \<open>"a\"b"\<close>, in which the literal name does not occur.
\<close>

theorem router_model_name_counterexample:
  "validateModelRouterSpec
     \<lparr>ModelRouter_ObjectMeta = \<lparr>Name = ''router'', Namespace = ''default'', Annotations = None\<rparr>,
      ModelRouter_Spec =
        \<lparr>ModelRouterSpec_Type = ''litellm'', ModelRouterSpec_Port = 4000,
         ModelRouterSpec_AiModels = [\<lparr>RouterAiModel_Name = []\<rparr>]\<rparr>\<rparr>
     = (None, Some (errors_New ''AI model name cannot be empty''))
   \<and> CHR ''/'' \<notin> set []
   \<and> \<not> strings_Contains ''AI model name cannot be empty'' ''provider/model-name''
   \<and> validateModelRouterSpec
     \<lparr>ModelRouter_ObjectMeta = \<lparr>Name = ''router'', Namespace = ''default'', Annotations = None\<rparr>,
      ModelRouter_Spec =
        \<lparr>ModelRouterSpec_Type = ''litellm'', ModelRouterSpec_Port = 4000,
         ModelRouterSpec_AiModels = [\<lparr>RouterAiModel_Name = [CHR ''a'', CHR 0x22, CHR ''b'']\<rparr>]\<rparr>\<rparr>
     = (None, Some (malformed_model [CHR ''a'', CHR 0x22, CHR ''b'']))
   \<and> Sprintf quoteInvalidByte
        [Lit ''model '', V_q [CHR ''a'', CHR 0x22, CHR ''b''],
         Lit ('' is malformed; format must be 'provider/model-name'' @ [CHR 0x27])]
     = ''model '' @ [CHR 0x22, CHR ''a'', CHR 0x5C, CHR 0x22, CHR ''b'', CHR 0x22] @
       '' is malformed; format must be 'provider/model-name'' @ [CHR 0x27]
   \<and> \<not> strings_Contains
        (Sprintf quoteInvalidByte
           [Lit ''model '', V_q [CHR ''a'', CHR 0x22, CHR ''b''],
            Lit ('' is malformed; format must be 'provider/model-name'' @ [CHR 0x27])])
        [CHR ''a'', CHR 0x22, CHR ''b'']"
proof -
  have cut: "strings_Cut [CHR ''a'', CHR 0x22, CHR ''b''] ''/'' = ([CHR ''a'', CHR 0x22, CHR ''b''], [], False)"
    by (simp add: strings_Cut_def Let_def)
  have q: "Sprintf quoteInvalidByte
        [Lit ''model '', V_q [CHR ''a'', CHR 0x22, CHR ''b''],
         Lit ('' is malformed; format must be 'provider/model-name'' @ [CHR 0x27])]
     = ''model '' @ [CHR 0x22, CHR ''a'', CHR 0x5C, CHR 0x22, CHR ''b'', CHR 0x22] @
       '' is malformed; format must be 'provider/model-name'' @ [CHR 0x27]"
    by (simp add: Sprintf_def strconv_Quote_def appendEscapedRune_def)
  have n1: "\<not> strings_Contains ''AI model name cannot be empty'' ''provider/model-name''"
    by (simp add: strings_Contains_def Let_def)
  have n2: "\<not> strings_Contains
        (''model '' @ [CHR 0x22, CHR ''a'', CHR 0x5C, CHR 0x22, CHR ''b'', CHR 0x22] @
         '' is malformed; format must be 'provider/model-name'' @ [CHR 0x27])
        [CHR ''a'', CHR 0x22, CHR ''b'']"
    by (simp add: strings_Contains_def Let_def)
  show ?thesis
    unfolding q using n1 n2
    by (simp add: validateModelRouterSpec_def providerModelSeparator_def cut)
qed

text \<open>
  Claim C4, amended. A router component is accepted exactly when its name splits at the
  first separator into a non-empty provider and a non-empty model name (and a list of
  components exactly when all of them do). The empty name is rejected by "AI model name
  cannot be empty". Every other name that does not split so is rejected by the message
  \<open>model %q is malformed; format must be 'provider/model-name'\<close>: it states the required
  shape and holds the name as \<open>%q\<close> quotes it, which is the literal name between double
  quotes when the name is made of printable ASCII characters other than the double
  quote and the backslash.
\<close>

theorem router_model_name_rule:
  "(validateModelRouterModels [m] = (None, None)) = splits_provider_model (RouterAiModel_Name m)
   \<and> (validateModelRouterModels ms = (None, None)) =
       (\<forall>x\<in>set ms. splits_provider_model (RouterAiModel_Name x))
   \<and> splits_provider_model n =
       (CHR ''/'' \<in> set n \<and> takeWhile (\<lambda>x. x \<noteq> CHR ''/'') n \<noteq> []
        \<and> tl (dropWhile (\<lambda>x. x \<noteq> CHR ''/'') n) \<noteq> [])
   \<and> (RouterAiModel_Name m = [] \<longrightarrow>
        validateModelRouterModels (m # rest) = (None, Some (errors_New ''AI model name cannot be empty'')))
   \<and> (RouterAiModel_Name m \<noteq> [] \<and> \<not> splits_provider_model (RouterAiModel_Name m) \<longrightarrow>
        validateModelRouterModels (m # rest) = (None, Some (malformed_model (RouterAiModel_Name m))))
   \<and> (splits_provider_model (RouterAiModel_Name m) \<longrightarrow>
        validateModelRouterModels (m # rest) = validateModelRouterModels rest)
   \<and> (ModelRouterSpec_Type (ModelRouter_Spec r) \<noteq> [] \<and> 0 < sint (ModelRouterSpec_Port (ModelRouter_Spec r))
        \<and> ModelRouterSpec_AiModels (ModelRouter_Spec r) \<noteq> [] \<longrightarrow>
        validateModelRouterSpec r = validateModelRouterModels (ModelRouterSpec_AiModels (ModelRouter_Spec r)))
   \<and> Sprintf hi [Lit ''model '', V_q n,
                  Lit ('' is malformed; format must be 'provider/model-name'' @ [CHR 0x27])]
       = ''model '' @ strconv_Quote hi n @ '' is malformed; format must be 'provider/model-name'' @ [CHR 0x27]
   \<and> strings_Contains
        (Sprintf hi [Lit ''model '', V_q n,
                     Lit ('' is malformed; format must be 'provider/model-name'' @ [CHR 0x27])])
        (strconv_Quote hi n)
   \<and> strings_Contains
        (Sprintf hi [Lit ''model '', V_q n,
                     Lit ('' is malformed; format must be 'provider/model-name'' @ [CHR 0x27])])
        ''provider/model-name''
   \<and> ((\<forall>c\<in>set n. 0x20 \<le> (of_char c :: nat) \<and> (of_char c :: nat) < 0x7F
                    \<and> c \<noteq> CHR 0x22 \<and> c \<noteq> CHR 0x5C) \<longrightarrow>
        strconv_Quote hi n = CHR 0x22 # n @ [CHR 0x22]
        \<and> strings_Contains
            (Sprintf hi [Lit ''model '', V_q n,
                         Lit ('' is malformed; format must be 'provider/model-name'' @ [CHR 0x27])])
            n)"
proof -
  let ?msg = "Sprintf hi [Lit ''model '', V_q n,
                  Lit ('' is malformed; format must be 'provider/model-name'' @ [CHR 0x27])]"
  have c1: "(validateModelRouterModels [m] = (None, None)) = splits_provider_model (RouterAiModel_Name m)"
    using validateModelRouterModels_accepts_iff [of "[m]"] by simp
  note c2 = validateModelRouterModels_accepts_iff [of ms]
  note c3 = splits_iff_first_separator [of n]
  have c4: "RouterAiModel_Name m = [] \<longrightarrow>
        validateModelRouterModels (m # rest) = (None, Some (errors_New ''AI model name cannot be empty''))"
    by (simp only: validateModelRouterModels_step) simp
  have c5: "RouterAiModel_Name m \<noteq> [] \<and> \<not> splits_provider_model (RouterAiModel_Name m) \<longrightarrow>
        validateModelRouterModels (m # rest) = (None, Some (malformed_model (RouterAiModel_Name m)))"
    by (simp only: validateModelRouterModels_step split: if_split) simp
  have c6: "splits_provider_model (RouterAiModel_Name m) \<longrightarrow>
        validateModelRouterModels (m # rest) = validateModelRouterModels rest"
  proof
    assume s: "splits_provider_model (RouterAiModel_Name m)"
    then have "RouterAiModel_Name m \<noteq> []" by (rule splits_nonempty)
    with s show "validateModelRouterModels (m # rest) = validateModelRouterModels rest"
      by (simp only: validateModelRouterModels_step if_True if_False)
  qed
  have c7: "ModelRouterSpec_Type (ModelRouter_Spec r) \<noteq> [] \<and> 0 < sint (ModelRouterSpec_Port (ModelRouter_Spec r))
        \<and> ModelRouterSpec_AiModels (ModelRouter_Spec r) \<noteq> [] \<longrightarrow>
        validateModelRouterSpec r = validateModelRouterModels (ModelRouterSpec_AiModels (ModelRouter_Spec r))"
    by (simp add: validateModelRouterSpec_def)
  have c8: "?msg = ''model '' @ strconv_Quote hi n @
                   '' is malformed; format must be 'provider/model-name'' @ [CHR 0x27]"
    by (simp add: Sprintf_def)
  have c9: "strings_Contains ?msg (strconv_Quote hi n)"
    unfolding c8 by (rule strings_Contains_append)
  have c10: "strings_Contains ?msg ''provider/model-name''"
    unfolding c8
    using strings_Contains_append [of "''model '' @ strconv_Quote hi n @ '' is malformed; format must be '' @ [CHR 0x27]"
        "''provider/model-name''" "[CHR 0x27]"]
    by simp
  have c11: "(\<forall>c\<in>set n. 0x20 \<le> (of_char c :: nat) \<and> (of_char c :: nat) < 0x7F
                    \<and> c \<noteq> CHR 0x22 \<and> c \<noteq> CHR 0x5C) \<longrightarrow>
        strconv_Quote hi n = CHR 0x22 # n @ [CHR 0x22] \<and> strings_Contains ?msg n"
  proof
    assume a: "\<forall>c\<in>set n. 0x20 \<le> (of_char c :: nat) \<and> (of_char c :: nat) < 0x7F
                    \<and> c \<noteq> CHR 0x22 \<and> c \<noteq> CHR 0x5C"
    then have q: "strconv_Quote hi n = CHR 0x22 # n @ [CHR 0x22]"
      by (simp add: strconv_Quote_def appendQuoted_plain)
    have "strings_Contains (''model '' @ strconv_Quote hi n @
                   '' is malformed; format must be 'provider/model-name'' @ [CHR 0x27]) n"
      unfolding q
      using strings_Contains_append [of "''model '' @ [CHR 0x22]" n
          "CHR 0x22 # '' is malformed; format must be 'provider/model-name'' @ [CHR 0x27]"]
      by simp
    with q show "strconv_Quote hi n = CHR 0x22 # n @ [CHR 0x22] \<and> strings_Contains ?msg n"
      unfolding c8 by simp
  qed
  show ?thesis
    using c1 c2 c3 c4 c5 c6 c7 c8 c9 c10 c11 by (intro conjI) assumption+
qed

theorem router_model_name_rule_witness:
  "validateModelRouterModels
      [\<lparr>RouterAiModel_Name = ''openai/gpt-4''\<rparr>, \<lparr>RouterAiModel_Name = ''anthropic/claude-3-opus''\<rparr>]
     = (None, None)
   \<and> validateModelRouterModels [\<lparr>RouterAiModel_Name = ''gpt-4''\<rparr>]
     = (None, Some (malformed_model ''gpt-4''))
   \<and> validateModelRouterModels [\<lparr>RouterAiModel_Name = ''/gpt-4''\<rparr>]
     = (None, Some (malformed_model ''/gpt-4''))
   \<and> validateModelRouterModels [\<lparr>RouterAiModel_Name = ''openai/''\<rparr>]
     = (None, Some (malformed_model ''openai/''))
   \<and> validateModelRouterModels [\<lparr>RouterAiModel_Name = []\<rparr>]
     = (None, Some (errors_New ''AI model name cannot be empty''))
   \<and> Sprintf quoteInvalidByte
        [Lit ''model '', V_q ''gpt-4'',
         Lit ('' is malformed; format must be 'provider/model-name'' @ [CHR 0x27])]
     = ''model '' @ [CHR 0x22] @ ''gpt-4'' @ [CHR 0x22] @
       '' is malformed; format must be 'provider/model-name'' @ [CHR 0x27]
   \<and> strings_Contains
        (Sprintf quoteInvalidByte
           [Lit ''model '', V_q ''gpt-4'',
            Lit ('' is malformed; format must be 'provider/model-name'' @ [CHR 0x27])])
        ''gpt-4''"
proof -
  note c2 = router_model_name_rule [THEN conjunct2, THEN conjunct1]
  note c3 = router_model_name_rule [THEN conjunct2, THEN conjunct2, THEN conjunct1]
  have s1: "splits_provider_model ''openai/gpt-4''"
    by (subst c3) simp
  have s2: "splits_provider_model ''anthropic/claude-3-opus''"
    by (subst c3) simp
  have s3: "\<not> splits_provider_model ''gpt-4''"
    by (subst c3) simp
  have s4: "\<not> splits_provider_model ''/gpt-4''"
    by (subst c3) simp
  have s5: "\<not> splits_provider_model ''openai/''"
    by (subst c3) simp
  have a: "validateModelRouterModels
      [\<lparr>RouterAiModel_Name = ''openai/gpt-4''\<rparr>, \<lparr>RouterAiModel_Name = ''anthropic/claude-3-opus''\<rparr>]
     = (None, None)"
    using s1 s2
    by (subst c2) (simp only: set_simps ball_simps RouterAiModel.simps simp_thms)
  have rej: "validateModelRouterModels [\<lparr>RouterAiModel_Name = n\<rparr>] = (None, Some (malformed_model n))"
    if "n \<noteq> []" and "\<not> splits_provider_model n" for n
  proof -
    have "RouterAiModel_Name \<lparr>RouterAiModel_Name = n\<rparr> \<noteq> [] \<and>
          \<not> splits_provider_model (RouterAiModel_Name \<lparr>RouterAiModel_Name = n\<rparr>)"
      using that by (simp only: RouterAiModel.simps simp_thms)
    from router_model_name_rule [where m = "\<lparr>RouterAiModel_Name = n\<rparr>" and rest = "[]",
        THEN conjunct2, THEN conjunct2, THEN conjunct2, THEN conjunct2, THEN conjunct1, THEN mp, OF this]
    show ?thesis by (simp only: RouterAiModel.simps)
  qed
  have b: "validateModelRouterModels [\<lparr>RouterAiModel_Name = ''gpt-4''\<rparr>]
     = (None, Some (malformed_model ''gpt-4''))"
    by (rule rej [OF _ s3]) simp
  have c: "validateModelRouterModels [\<lparr>RouterAiModel_Name = ''/gpt-4''\<rparr>]
     = (None, Some (malformed_model ''/gpt-4''))"
    by (rule rej [OF _ s4]) simp
  have d: "validateModelRouterModels [\<lparr>RouterAiModel_Name = ''openai/''\<rparr>]
     = (None, Some (malformed_model ''openai/''))"
    by (rule rej [OF _ s5]) simp
  have e: "validateModelRouterModels [\<lparr>RouterAiModel_Name = []\<rparr>]
     = (None, Some (errors_New ''AI model name cannot be empty''))"
  proof -
    have "RouterAiModel_Name \<lparr>RouterAiModel_Name = []\<rparr> = []"
      by (simp only: RouterAiModel.simps)
    from router_model_name_rule [where m = "\<lparr>RouterAiModel_Name = []\<rparr>" and rest = "[]",
        THEN conjunct2, THEN conjunct2, THEN conjunct2, THEN conjunct1, THEN mp, OF this]
    show ?thesis .
  qed
  have safe: "\<forall>c\<in>set ''gpt-4''. 0x20 \<le> (of_char c :: nat) \<and> (of_char c :: nat) < 0x7F
                    \<and> c \<noteq> CHR 0x22 \<and> c \<noteq> CHR 0x5C"
    by simp
  note g = router_model_name_rule [where n = "''gpt-4''" and hi = quoteInvalidByte,
      THEN conjunct2, THEN conjunct2, THEN conjunct2, THEN conjunct2, THEN conjunct2, THEN conjunct2, THEN conjunct2, THEN conjunct2, THEN conjunct2, THEN conjunct2, THEN mp, OF safe]
  note q = g [THEN conjunct1]
  note k = g [THEN conjunct2]
  have f: "Sprintf quoteInvalidByte
        [Lit ''model '', V_q ''gpt-4'',
         Lit ('' is malformed; format must be 'provider/model-name'' @ [CHR 0x27])]
     = ''model '' @ [CHR 0x22] @ ''gpt-4'' @ [CHR 0x22] @
       '' is malformed; format must be 'provider/model-name'' @ [CHR 0x27]"
    unfolding router_model_name_rule [where n = "''gpt-4''" and hi = quoteInvalidByte,
      THEN conjunct2, THEN conjunct2, THEN conjunct2, THEN conjunct2, THEN conjunct2, THEN conjunct2, THEN conjunct2, THEN conjunct1] q by simp
  from a b c d e f k show ?thesis by (intro conjI) assumption+
qed

end
